theory Spec2Isabelle
  imports Main "HOL-Library.Char_ord" "HOL-Library.List_Lexorder" "HOL-Library.Sublist"
begin

section \<open>Common types\<close>

text \<open>
  Object identifiers (Mongo ObjectIds) are natural numbers. A Date is the number of
  milliseconds since the epoch, an integer. A thrown JavaScript Error carries its
  message; a failed schema validation and a violated unique index are errors of the
  storage layer. Routes answer with an HTTP status code and a message.
\<close>

type_synonym oid = nat
type_synonym date = int

datatype error =
    Error string
  | ValidationError string
  | DuplicateKey string

datatype http_error = HTTP nat string

text \<open>
  The clock: every \<^verbatim>\<open>new Date()\<close> and \<^verbatim>\<open>Date.now()\<close> of one call is a separate
  reading; \<open>clk k\<close> is the k-th reading made by the call.
\<close>

type_synonym clock = "nat \<Rightarrow> date"

section \<open>Equipment (models/Equipment.js)\<close>

datatype category =
    Weapons | Communication | ProtectiveGear | Vehicles | Surveillance
  | ForensicEquipment | MedicalSupplies | OfficeEquipment | Other

datatype condition = Excellent | Good | Fair | Poor | OutOfService

datatype equipment_status = Available | Issued | UnderMaintenance | Retired

record custody =
  userId :: oid
  issuedDate :: date
  custodyExpectedReturnDate :: date

record maintenance =
  maintDate :: date
  maintDescription :: string
  maintCost :: "int option"
  performedBy :: string

record warranty =
  warrantyPeriod :: "string option"
  warrantyExpiry :: "date option"
  warrantyProvider :: "string option"

record equipment =
  name :: string
  category :: category
  model :: string
  serialNumber :: string
  manufacturer :: string
  purchaseDate :: date
  cost :: int
  condition :: condition
  status :: equipment_status
  location :: string
  issuedTo :: "custody option"
  maintenanceHistory :: "maintenance list"
  specifications :: "(string \<times> string) list"
  images :: "(string \<times> string) list"
  equipmentNotes :: "string option"
  warrantyInfo :: warranty
  addedBy :: oid
  lastModifiedBy :: "oid option"
  createdAt :: date
  updatedAt :: date

text \<open>
  The schema is declared with \<^verbatim>\<open>timestamps: true\<close>: the documents carry \<^verbatim>\<open>createdAt\<close>
  and \<^verbatim>\<open>updatedAt\<close>, and every save of a changed document and every update sets
  \<^verbatim>\<open>updatedAt\<close> to the clock's reading at that moment.
\<close>

text \<open>
  The virtual \<^verbatim>\<open>age\<close>: the absolute difference of the two dates in milliseconds,
  divided by the milliseconds of a day and rounded up (\<^verbatim>\<open>Math.ceil\<close>), then divided by 365
  and rounded down (\<^verbatim>\<open>Math.floor\<close>). \<open>today\<close> is the clock reading.
\<close>

definition msPerDay :: int where
  "msPerDay = 1000 * 60 * 60 * 24"

definition ceilDiv :: "int \<Rightarrow> int \<Rightarrow> int" where
  "ceilDiv a b = - ((- a) div b)"

definition age :: "date \<Rightarrow> equipment \<Rightarrow> int" where
  "age today e =
     (let diffTime = \<bar>today - purchaseDate e\<bar>;
          diffDays = ceilDiv diffTime msPerDay
      in diffDays div 365)"

text \<open>
  \<^verbatim>\<open>issueToUser(userId, expectedReturnDate)\<close>: throws unless the status is Available;
  otherwise sets the status and the custody block and saves. The issue date is the first
  clock reading; the default return date is a second reading, that of \<^verbatim>\<open>Date.now()\<close>,
  plus 30 days, and that reading is made only when no date is given. The save changes
  the status, so it sets \<^verbatim>\<open>updatedAt\<close> to the next reading. The document was
  validated when it was stored and the method writes the status and the custody block
  only, so its save returns the document; the same holds for \<^verbatim>\<open>returnFromUser\<close>.
\<close>

definition thirtyDays :: int where
  "thirtyDays = 30 * 24 * 60 * 60 * 1000"

definition issueToUser :: "equipment \<Rightarrow> oid \<Rightarrow> date option \<Rightarrow> clock \<Rightarrow> error + equipment" where
  "issueToUser e uid expectedReturn clk =
     (if status e \<noteq> Available then Inl (Error ''Equipment is not available for issue'')
      else Inr (e\<lparr>status := Issued,
                  issuedTo := Some \<lparr>userId = uid,
                                     issuedDate = clk 0,
                                     custodyExpectedReturnDate =
                                       (case expectedReturn of
                                          Some d \<Rightarrow> d
                                        | None \<Rightarrow> clk 1 + thirtyDays)\<rparr>,
                  updatedAt := (case expectedReturn of
                                  Some d \<Rightarrow> clk 1
                                | None \<Rightarrow> clk 2)\<rparr>))"

text \<open>
  \<^verbatim>\<open>returnFromUser()\<close>: throws unless the status is Issued; clears the custody block
  and saves, which sets \<^verbatim>\<open>updatedAt\<close> to the clock's reading.
\<close>

definition returnFromUser :: "equipment \<Rightarrow> clock \<Rightarrow> error + equipment" where
  "returnFromUser e clk =
     (if status e \<noteq> Issued then Inl (Error ''Equipment is not currently issued'')
      else Inr (e\<lparr>status := Available, issuedTo := None, updatedAt := clk 0\<rparr>))"

text \<open>The custody invariant of the data model: the block is present exactly when Issued.\<close>

definition custodyInvariant :: "equipment \<Rightarrow> bool" where
  "custodyInvariant e = ((status e = Issued) = (issuedTo e \<noteq> None))"


section \<open>Strings and numbers of JavaScript\<close>

text \<open>
  Characters are bytes; the identifiers handled here are ASCII. Whitespace as
  \<^verbatim>\<open>trim\<close> and \<^verbatim>\<open>parseInt\<close> skip it: space, tab, line feed, vertical tab, form feed,
  carriage return.
\<close>

definition isSpace :: "char \<Rightarrow> bool" where
  "isSpace c = (c \<in> set [CHR 0x20, CHR 0x09, CHR 0x0A, CHR 0x0B, CHR 0x0C, CHR 0x0D])"

definition trim :: "string \<Rightarrow> string" where
  "trim s = rev (dropWhile isSpace (rev (dropWhile isSpace s)))"

definition digitChar :: "nat \<Rightarrow> char" where
  "digitChar d = ''0123456789'' ! d"

text \<open>\<^verbatim>\<open>String(n)\<close> of a non-negative integer, and of any integer.\<close>

fun natToString :: "nat \<Rightarrow> string" where
  "natToString n =
     (if n < 10 then [digitChar n] else natToString (n div 10) @ [digitChar (n mod 10)])"

declare natToString.simps [simp del]

definition toString :: "int \<Rightarrow> string" where
  "toString i = (if i < 0 then CHR ''-'' # natToString (nat (- i)) else natToString (nat i))"

definition padStart :: "nat \<Rightarrow> char \<Rightarrow> string \<Rightarrow> string" where
  "padStart n c s = replicate (n - length s) c @ s"

text \<open>\<^verbatim>\<open>s.split(c)\<close> for a one-character separator.\<close>

fun splitOn :: "char \<Rightarrow> string \<Rightarrow> string list" where
  "splitOn c [] = [[]]"
| "splitOn c (x # xs) =
     (if x = c then [] # splitOn c xs
      else (case splitOn c xs of
              [] \<Rightarrow> [[x]]
            | w # ws \<Rightarrow> (x # w) # ws))"

text \<open>Reading an index of an array: out of range it is \<^verbatim>\<open>undefined\<close>.\<close>

definition nthOpt :: "'a list \<Rightarrow> nat \<Rightarrow> 'a option" where
  "nthOpt xs i = (if i < length xs then Some (xs ! i) else None)"

definition digitValue :: "char \<Rightarrow> nat option" where
  "digitValue c =
     map_of [(CHR ''0'', 0), (CHR ''1'', 1), (CHR ''2'', 2), (CHR ''3'', 3), (CHR ''4'', 4),
             (CHR ''5'', 5), (CHR ''6'', 6), (CHR ''7'', 7), (CHR ''8'', 8), (CHR ''9'', 9),
             (CHR ''a'', 10), (CHR ''b'', 11), (CHR ''c'', 12), (CHR ''d'', 13),
             (CHR ''e'', 14), (CHR ''f'', 15),
             (CHR ''A'', 10), (CHR ''B'', 11), (CHR ''C'', 12), (CHR ''D'', 13),
             (CHR ''E'', 14), (CHR ''F'', 15)] c"

definition isDecimal :: "char \<Rightarrow> bool" where
  "isDecimal c = (c \<in> set ''0123456789'')"

definition isDigitIn :: "nat \<Rightarrow> char \<Rightarrow> bool" where
  "isDigitIn radix c = (case digitValue c of Some v \<Rightarrow> v < radix | None \<Rightarrow> False)"

definition digitsValue :: "nat \<Rightarrow> string \<Rightarrow> nat" where
  "digitsValue radix ds =
     foldl (\<lambda>acc c. acc * radix + (case digitValue c of Some v \<Rightarrow> v | None \<Rightarrow> 0)) 0 ds"

text \<open>
  \<^verbatim>\<open>parseInt(s)\<close> with no radix: leading whitespace is skipped, a sign is read, a prefix
  \<^verbatim>\<open>0x\<close> selects base 16, and the longest run of digits is the value; with no digit the
  result is NaN, here \<open>None\<close>. An \<^verbatim>\<open>undefined\<close> argument gives NaN too. Numbers are
  unbounded integers: the model is exact below \<open>2 ^ 53\<close>.
\<close>

definition parseInt :: "string \<Rightarrow> int option" where
  "parseInt s =
     (let s1 = dropWhile isSpace s;
          neg = (take 1 s1 = ''-'');
          s2 = (if take 1 s1 = ''-'' \<or> take 1 s1 = ''+'' then drop 1 s1 else s1);
          hex = (take 2 s2 = ''0x'' \<or> take 2 s2 = ''0X'');
          radix = (if hex then 16 else 10);
          s3 = (if hex then drop 2 s2 else s2);
          ds = takeWhile (isDigitIn radix) s3
      in if ds = [] then None
         else Some ((if neg then - 1 else 1) * int (digitsValue radix ds)))"

definition parseIntOpt :: "string option \<Rightarrow> int option" where
  "parseIntOpt v = (case v of None \<Rightarrow> None | Some s \<Rightarrow> parseInt s)"

section \<open>Requests (models/Request.js)\<close>

datatype request_type = Issue | Return | Maintenance

datatype request_status = Pending | Approved | Rejected | Completed | Cancelled

datatype priority = Low | Medium | High | Urgent

record status_entry =
  entryStatus :: request_status
  changedBy :: oid
  changedDate :: date
  entryNotes :: "string option"

record attachment =
  filename :: string
  url :: string
  uploadDate :: date

text \<open>
  A request document. \<open>rid\<close> is its \<^verbatim>\<open>_id\<close>; \<open>requestStatus\<close> is the schema's
  \<^verbatim>\<open>status\<close>. A field the schema does not require is optional.
\<close>

record request =
  rid :: oid
  requestId :: "string option"
  requestedBy :: oid
  equipmentId :: "oid option"
  requestType :: request_type
  requestStatus :: request_status
  priority :: priority
  requestedDate :: date
  expectedReturnDate :: "date option"
  reason :: string
  adminNotes :: "string option"
  processedBy :: "oid option"
  processedDate :: "date option"
  approvedDate :: "date option"
  completedDate :: "date option"
  attachments :: "attachment list"
  statusHistory :: "status_entry list"

text \<open>
  The validators of the schema, run by every save: \<^verbatim>\<open>equipmentId\<close> is required,
  \<^verbatim>\<open>expectedReturnDate\<close> is required for an Issue request, \<^verbatim>\<open>reason\<close> is required (an
  empty string does not count) and at most 500 characters, \<^verbatim>\<open>adminNotes\<close> at most 500.
\<close>

definition validateRequest :: "request \<Rightarrow> bool" where
  "validateRequest r =
     (equipmentId r \<noteq> None
      \<and> (if requestType r = Issue then expectedReturnDate r \<noteq> None else True)
      \<and> reason r \<noteq> []
      \<and> length (reason r) \<le> 500
      \<and> (case adminNotes r of None \<Rightarrow> True | Some n \<Rightarrow> length n \<le> 500))"

subsection \<open>The identifier generator (the pre-validate hook)\<close>

text \<open>
  The calendar fields of the hook's \<^verbatim>\<open>new Date()\<close> in local time: \<^verbatim>\<open>getFullYear()\<close>,
  \<^verbatim>\<open>getMonth()\<close> (0 to 11) and \<^verbatim>\<open>getDate()\<close>. What the hook reads from its environment:
  whether the awaited query rejects, the reading of \<^verbatim>\<open>Date.now()\<close> in the fallback and
  the string \<^verbatim>\<open>Math.random().toString(36).substr(2, 9)\<close>.
\<close>

record local_date =
  fullYear :: nat
  monthIndex :: nat
  dayOfMonth :: nat

record hook_env =
  today :: local_date
  findOneFails :: bool
  fallbackNow :: date
  fallbackRandom :: string

text \<open>A date of a year with four digits.\<close>

definition validDate :: "local_date \<Rightarrow> bool" where
  "validDate d =
     (1000 \<le> fullYear d \<and> fullYear d < 10000 \<and> monthIndex d < 12 \<and> dayOfMonth d < 32)"

definition datePrefix :: "local_date \<Rightarrow> string" where
  "datePrefix d =
     ''REQ-'' @ natToString (fullYear d)
       @ padStart 2 (CHR ''0'') (natToString (monthIndex d + 1))
       @ padStart 2 (CHR ''0'') (natToString (dayOfMonth d))"

text \<open>
  \<^verbatim>\<open>findOne({requestId: /^REQ-yyyymmdd/}).sort({requestId: -1})\<close>: among the stored
  identifiers that start with the prefix, the greatest in the order of strings.
\<close>

definition findLastOfDay :: "request list \<Rightarrow> string \<Rightarrow> string option" where
  "findLastOfDay coll p =
     (case filter (prefix p) (List.map_filter requestId coll) of
        [] \<Rightarrow> None
      | x # xs \<Rightarrow> Some (fold max xs x))"

definition nextSequence :: "string option \<Rightarrow> int" where
  "nextSequence lastRequestId =
     (case lastRequestId of
        None \<Rightarrow> 1
      | Some s \<Rightarrow>
          (if s = [] then 1
           else (case parseIntOpt (nthOpt (splitOn (CHR ''-'') s) 2) of
                   None \<Rightarrow> 1
                 | Some lastSequence \<Rightarrow> lastSequence + 1)))"

definition primaryId :: "local_date \<Rightarrow> int \<Rightarrow> string" where
  "primaryId d sequence = datePrefix d @ ''-'' @ padStart 4 (CHR ''0'') (toString sequence)"

definition fallbackId :: "date \<Rightarrow> string \<Rightarrow> string" where
  "fallbackId now rnd = ''REQ-'' @ toString now @ ''-'' @ rnd"

definition generateRequestId :: "request list \<Rightarrow> hook_env \<Rightarrow> string" where
  "generateRequestId coll env =
     (if findOneFails env then fallbackId (fallbackNow env) (fallbackRandom env)
      else primaryId (today env) (nextSequence (findLastOfDay coll (datePrefix (today env)))))"

definition hasRequestId :: "request \<Rightarrow> bool" where
  "hasRequestId r = (case requestId r of None \<Rightarrow> False | Some s \<Rightarrow> s \<noteq> [])"

definition preValidate :: "request list \<Rightarrow> hook_env \<Rightarrow> request \<Rightarrow> request" where
  "preValidate coll env r =
     (if hasRequestId r then r else r\<lparr>requestId := Some (generateRequestId coll env)\<rparr>)"

subsection \<open>The history hook (pre-save) and save\<close>

text \<open>
  \<open>statusModified\<close> is \<^verbatim>\<open>this.isModified('status')\<close>, \<open>isNew\<close> is \<^verbatim>\<open>this.isNew\<close>, \<open>now\<close>
  the hook's clock reading.
\<close>

definition preSave :: "bool \<Rightarrow> bool \<Rightarrow> date \<Rightarrow> request \<Rightarrow> request" where
  "preSave statusModified isNew now r =
     (if statusModified \<and> \<not> isNew
      then r\<lparr>statusHistory := statusHistory r @
              [\<lparr>entryStatus = requestStatus r,
                changedBy = (case processedBy r of Some p \<Rightarrow> p | None \<Rightarrow> requestedBy r),
                changedDate = now,
                entryNotes = adminNotes r\<rparr>]\<rparr>
      else r)"

text \<open>
  The second half of a save, after the identifier is there: validation, the history
  hook and the write. The index on \<^verbatim>\<open>requestId\<close> is unique: a write that would give two
  documents the same identifier is rejected. A new document is appended, an old one
  replaced.
\<close>

definition commit :: "request list \<Rightarrow> date \<Rightarrow> bool \<Rightarrow> bool \<Rightarrow> request
    \<Rightarrow> error + (request list \<times> request)" where
  "commit coll now isNew statusModified r =
     (if \<not> validateRequest r then Inl (ValidationError ''Request validation failed'')
      else
        (let r' = preSave statusModified isNew now r in
         if list_ex (\<lambda>x. rid x \<noteq> rid r' \<and> requestId x = requestId r') coll
         then Inl (DuplicateKey ''requestId'')
         else Inr (if isNew then coll @ [r']
                   else map (\<lambda>x. if rid x = rid r' then r' else x) coll, r')))"

definition save :: "request list \<Rightarrow> hook_env \<Rightarrow> date \<Rightarrow> bool \<Rightarrow> bool \<Rightarrow> request
    \<Rightarrow> error + (request list \<times> request)" where
  "save coll env now isNew statusModified r =
     commit coll now isNew statusModified (preValidate coll env r)"

subsection \<open>The methods approve, reject and complete\<close>

text \<open>
  Each sets its fields and saves. Assigning the status marks it modified when the value
  differs from the one the document had. A note that is \<^verbatim>\<open>undefined\<close> is \<open>None\<close>.
\<close>

definition approve :: "request list \<Rightarrow> hook_env \<Rightarrow> clock \<Rightarrow> request \<Rightarrow> oid \<Rightarrow> string option
    \<Rightarrow> error + (request list \<times> request)" where
  "approve coll env clk r adminId notes =
     save coll env (clk 2) False (requestStatus r \<noteq> Approved)
       (r\<lparr>requestStatus := Approved,
          processedBy := Some adminId,
          processedDate := Some (clk 0),
          approvedDate := Some (clk 1),
          adminNotes := notes\<rparr>)"

definition reject :: "request list \<Rightarrow> hook_env \<Rightarrow> clock \<Rightarrow> request \<Rightarrow> oid \<Rightarrow> string option
    \<Rightarrow> error + (request list \<times> request)" where
  "reject coll env clk r adminId rejectReason =
     save coll env (clk 1) False (requestStatus r \<noteq> Rejected)
       (r\<lparr>requestStatus := Rejected,
          processedBy := Some adminId,
          processedDate := Some (clk 0),
          adminNotes := rejectReason\<rparr>)"

definition truthy :: "string option \<Rightarrow> bool" where
  "truthy v = (case v of None \<Rightarrow> False | Some s \<Rightarrow> s \<noteq> [])"

definition complete :: "request list \<Rightarrow> hook_env \<Rightarrow> clock \<Rightarrow> request \<Rightarrow> oid \<Rightarrow> string option
    \<Rightarrow> error + (request list \<times> request)" where
  "complete coll env clk r adminId notes =
     save coll env (clk 1) False (requestStatus r \<noteq> Completed)
       (r\<lparr>requestStatus := Completed,
          processedBy := Some adminId,
          completedDate := Some (clk 0),
          adminNotes := (if truthy notes then notes else adminNotes r)\<rparr>)"


section \<open>The stored collections and the users\<close>

text \<open>
  The equipment collection is read and written by \<^verbatim>\<open>_id\<close> only; the request collection
  is also searched and sorted, so it is a list of documents. The model
  \<^verbatim>\<open>EquipmentPool\<close> is not part of the code modelled here: a pool is the record of the
  two fields the routes read, and its method \<^verbatim>\<open>updateCounts\<close> is a parameter of the
  route that calls it.
\<close>

record pool =
  authorizedDesignations :: "string list"
  availableCount :: nat

record database =
  equipmentColl :: "oid \<rightharpoonup> equipment"
  requestColl :: "request list"
  poolColl :: "oid \<rightharpoonup> pool"

record user =
  userOid :: oid
  designation :: string

text \<open>
  A request method run on the database: the method's save writes the request collection
  and nothing else.
\<close>

definition onRequests :: "database \<Rightarrow> (request list \<Rightarrow> error + (request list \<times> request))
    \<Rightarrow> error + (database \<times> request)" where
  "onRequests db m =
     (case m (requestColl db) of
        Inl e \<Rightarrow> Inl e
      | Inr (coll', r') \<Rightarrow> Inr (db\<lparr>requestColl := coll'\<rparr>, r'))"

section \<open>The equipment routes\<close>

definition parseStatus :: "string \<Rightarrow> equipment_status option" where
  "parseStatus s =
     map_of [(''Available'', Available), (''Issued'', Issued),
             (''Under Maintenance'', UnderMaintenance), (''Retired'', Retired)] s"

definition parseCategory :: "string \<Rightarrow> category option" where
  "parseCategory s =
     map_of [(''Weapons'', Weapons), (''Communication'', Communication),
             (''Protective Gear'', ProtectiveGear), (''Vehicles'', Vehicles),
             (''Surveillance'', Surveillance), (''Forensic Equipment'', ForensicEquipment),
             (''Medical Supplies'', MedicalSupplies), (''Office Equipment'', OfficeEquipment),
             (''Other'', Other)] s"

definition parseCondition :: "string \<Rightarrow> condition option" where
  "parseCondition s =
     map_of [(''Excellent'', Excellent), (''Good'', Good), (''Fair'', Fair), (''Poor'', Poor),
             (''Out of Service'', OutOfService)] s"

text \<open>
  The body of \<^verbatim>\<open>PUT /api/equipment/:id\<close>; a field that is \<^verbatim>\<open>undefined\<close> is \<open>None\<close>.
  The category, the condition and the status arrive as strings.
\<close>

record update_body =
  bodyName :: "string option"
  bodyCategory :: "string option"
  bodyModel :: "string option"
  bodyManufacturer :: "string option"
  bodyCost :: "int option"
  bodyLocation :: "string option"
  bodyCondition :: "string option"
  bodyStatus :: "string option"
  bodyNotes :: "string option"
  bodySpecifications :: "(string \<times> string) list option"
  bodyWarrantyInfo :: "warranty option"

definition optionalOk :: "('a \<Rightarrow> bool) \<Rightarrow> 'a option \<Rightarrow> bool" where
  "optionalOk p v = (case v of None \<Rightarrow> True | Some x \<Rightarrow> p x)"

text \<open>The chain of validators of the route; \<^verbatim>\<open>trim()\<close> also rewrites the field.\<close>

definition updateBodyValid :: "update_body \<Rightarrow> bool" where
  "updateBodyValid b =
     (optionalOk (\<lambda>s. 1 \<le> length (trim s) \<and> length (trim s) \<le> 100) (bodyName b)
      \<and> optionalOk (\<lambda>s. parseCategory s \<noteq> None) (bodyCategory b)
      \<and> optionalOk (\<lambda>s. 1 \<le> length (trim s)) (bodyModel b)
      \<and> optionalOk (\<lambda>s. 1 \<le> length (trim s)) (bodyManufacturer b)
      \<and> optionalOk (\<lambda>s. 1 \<le> length (trim s)) (bodyLocation b)
      \<and> optionalOk (\<lambda>s. parseCondition s \<noteq> None) (bodyCondition b)
      \<and> optionalOk (\<lambda>s. parseStatus s \<noteq> None) (bodyStatus b)
      \<and> optionalOk (\<lambda>s. length s \<le> 500) (bodyNotes b))"

definition orKeep :: "'a option \<Rightarrow> 'a \<Rightarrow> 'a" where
  "orKeep v old = (case v of None \<Rightarrow> old | Some x \<Rightarrow> x)"

text \<open>
  The update object handed to \<^verbatim>\<open>findByIdAndUpdate\<close>: every field of the body that is
  defined, and \<^verbatim>\<open>lastModifiedBy\<close>; the update also sets \<^verbatim>\<open>updatedAt\<close> to the clock's
  reading \<open>now\<close>. No other path of the document is written.
\<close>

definition applyUpdates :: "update_body \<Rightarrow> oid \<Rightarrow> date \<Rightarrow> equipment \<Rightarrow> equipment" where
  "applyUpdates b modifier now e =
     e\<lparr>name := orKeep (map_option trim (bodyName b)) (name e),
       category := orKeep (Option.bind (bodyCategory b) parseCategory) (category e),
       model := orKeep (map_option trim (bodyModel b)) (model e),
       manufacturer := orKeep (map_option trim (bodyManufacturer b)) (manufacturer e),
       cost := orKeep (bodyCost b) (cost e),
       location := orKeep (map_option trim (bodyLocation b)) (location e),
       condition := orKeep (Option.bind (bodyCondition b) parseCondition) (condition e),
       status := orKeep (Option.bind (bodyStatus b) parseStatus) (status e),
       equipmentNotes := (case bodyNotes b of None \<Rightarrow> equipmentNotes e | Some n \<Rightarrow> Some n),
       specifications := orKeep (bodySpecifications b) (specifications e),
       warrantyInfo := orKeep (bodyWarrantyInfo b) (warrantyInfo e),
       lastModifiedBy := Some modifier,
       updatedAt := now\<rparr>"

text \<open>
  \<^verbatim>\<open>PUT /api/equipment/:id\<close>: 400 for a body the validators refuse, 404 for an unknown
  id, 500 when the update validators of the schema refuse the update (a negative cost),
  else the updated document.
\<close>

definition updateEquipment :: "database \<Rightarrow> oid \<Rightarrow> update_body \<Rightarrow> oid \<Rightarrow> date
    \<Rightarrow> http_error + (database \<times> equipment)" where
  "updateEquipment db eid b modifier now =
     (if \<not> updateBodyValid b then Inl (HTTP 400 ''Validation errors'')
      else (case equipmentColl db eid of
              None \<Rightarrow> Inl (HTTP 404 ''Equipment not found'')
            | Some e \<Rightarrow>
                (if optionalOk (\<lambda>c. 0 \<le> c) (bodyCost b)
                 then (let e' = applyUpdates b modifier now e
                       in Inr (db\<lparr>equipmentColl := (equipmentColl db)(eid \<mapsto> e')\<rparr>, e'))
                 else Inl (HTTP 500 ''Server error updating equipment''))))"

text \<open>
  \<^verbatim>\<open>PUT /api/equipment/:id/issue\<close> and \<^verbatim>\<open>PUT /api/equipment/:id/return\<close>: the document
  is loaded, the method is called and its error, if any, is answered with 400 and the
  error's message.
\<close>

definition errorMessage :: "error \<Rightarrow> string" where
  "errorMessage e = (case e of Error m \<Rightarrow> m | ValidationError m \<Rightarrow> m | DuplicateKey m \<Rightarrow> m)"

definition issueEquipment :: "database \<Rightarrow> clock \<Rightarrow> oid \<Rightarrow> oid \<Rightarrow> date option
    \<Rightarrow> http_error + (database \<times> equipment)" where
  "issueEquipment db clk eid uid expectedReturn =
     (case equipmentColl db eid of
        None \<Rightarrow> Inl (HTTP 404 ''Equipment not found'')
      | Some e \<Rightarrow>
          (case issueToUser e uid expectedReturn clk of
             Inl err \<Rightarrow> Inl (HTTP 400 (errorMessage err))
           | Inr e' \<Rightarrow> Inr (db\<lparr>equipmentColl := (equipmentColl db)(eid \<mapsto> e')\<rparr>, e')))"

definition returnEquipment :: "database \<Rightarrow> clock \<Rightarrow> oid
    \<Rightarrow> http_error + (database \<times> equipment)" where
  "returnEquipment db clk eid =
     (case equipmentColl db eid of
        None \<Rightarrow> Inl (HTTP 404 ''Equipment not found'')
      | Some e \<Rightarrow>
          (case returnFromUser e clk of
             Inl err \<Rightarrow> Inl (HTTP 400 (errorMessage err))
           | Inr e' \<Rightarrow> Inr (db\<lparr>equipmentColl := (equipmentColl db)(eid \<mapsto> e')\<rparr>, e')))"

section \<open>The officer routes (routes/officer.js)\<close>

text \<open>
  \<^verbatim>\<open>PUT /api/officer/requests/:id/cancel\<close>: the request is looked up by its id and its
  requester; only a Pending request is cancelled.
\<close>

definition cancelRequest :: "database \<Rightarrow> hook_env \<Rightarrow> clock \<Rightarrow> oid \<Rightarrow> user
    \<Rightarrow> http_error + (database \<times> request)" where
  "cancelRequest db env clk reqId u =
     (case find (\<lambda>r. rid r = reqId \<and> requestedBy r = userOid u) (requestColl db) of
        None \<Rightarrow> Inl (HTTP 404 ''Request not found'')
      | Some r \<Rightarrow>
          (if requestStatus r \<noteq> Pending
           then Inl (HTTP 400 ''Only pending requests can be cancelled'')
           else (case onRequests db (\<lambda>coll. save coll env (clk 0) False
                         (requestStatus r \<noteq> Cancelled) (r\<lparr>requestStatus := Cancelled\<rparr>)) of
                   Inl err \<Rightarrow> Inl (HTTP 500 ''Server error cancelling request'')
                 | Inr res \<Rightarrow> Inr res)))"

text \<open>
  \<^verbatim>\<open>POST /api/officer/requests\<close>. The body after its validators: a valid equipment id, a
  request type, a reason of 1 to 500 characters, an optional priority and an optional
  date. \<open>newId\<close> is the \<^verbatim>\<open>_id\<close> the new document gets.
\<close>

record create_body =
  createEquipmentId :: oid
  createRequestType :: request_type
  createReason :: string
  createPriority :: "priority option"
  createExpectedReturnDate :: "date option"

definition newRequest :: "oid \<Rightarrow> oid \<Rightarrow> oid option \<Rightarrow> request_type \<Rightarrow> string \<Rightarrow> priority
    \<Rightarrow> date option \<Rightarrow> date \<Rightarrow> request" where
  "newRequest newId requester target ty why prio expected now =
     \<lparr>rid = newId, requestId = None, requestedBy = requester, equipmentId = target,
      requestType = ty, requestStatus = Pending, priority = prio, requestedDate = now,
      expectedReturnDate = expected, reason = why, adminNotes = None, processedBy = None,
      processedDate = None, approvedDate = None, completedDate = None, attachments = [],
      statusHistory = []\<rparr>"

definition createRequest :: "database \<Rightarrow> hook_env \<Rightarrow> clock \<Rightarrow> oid \<Rightarrow> user \<Rightarrow> create_body
    \<Rightarrow> http_error + (database \<times> request)" where
  "createRequest db env clk newId u b =
     (if \<not> (1 \<le> length (createReason b) \<and> length (createReason b) \<le> 500)
      then Inl (HTTP 400 ''Validation errors'')
      else (case equipmentColl db (createEquipmentId b) of
        None \<Rightarrow> Inl (HTTP 404 ''Equipment not found'')
      | Some e \<Rightarrow>
          (if createRequestType b = Issue \<and> status e \<noteq> Available
           then Inl (HTTP 400 ''Equipment is not available for issue'')
           else if createRequestType b = Issue
                   \<and> list_ex (\<lambda>r. requestedBy r = userOid u
                                  \<and> equipmentId r = Some (createEquipmentId b)
                                  \<and> requestType r = Issue \<and> requestStatus r = Pending)
                        (requestColl db)
           then Inl (HTTP 400 ''You already have a pending request for this equipment'')
           else if createRequestType b = Return
                   \<and> (status e \<noteq> Issued
                        \<or> (case issuedTo e of None \<Rightarrow> True | Some c \<Rightarrow> userId c \<noteq> userOid u))
           then Inl (HTTP 400 ''Equipment is not issued to you'')
           else (case onRequests db (\<lambda>coll. save coll env (clk 1) True True
                         (newRequest newId (userOid u) (Some (createEquipmentId b))
                            (createRequestType b) (createReason b)
                            (orKeep (createPriority b) Medium)
                            (createExpectedReturnDate b) (clk 0))) of
                   Inl err \<Rightarrow> Inl (HTTP 500 ''Server error creating request'')
                 | Inr res \<Rightarrow> Inr res))))"

text \<open>
  \<^verbatim>\<open>POST /api/officer/equipment-requests/from-pool\<close>. The body's \<^verbatim>\<open>poolId\<close> is \<open>None\<close>
  when it is not a valid id. \<open>updateCounts\<close> is the method of the pool model, which
  recomputes the pool's counts. The new document is built with \<^verbatim>\<open>equipmentId: null\<close>;
  \<^verbatim>\<open>poolId\<close> and \<^verbatim>\<open>poolName\<close> are no paths of the request schema and are dropped.
\<close>

record pool_body =
  bodyPoolId :: "oid option"
  bodyPoolName :: string
  bodyReason :: string
  bodyPriority :: "priority option"
  bodyExpectedDuration :: bool

definition sevenDays :: int where
  "sevenDays = 7 * 24 * 60 * 60 * 1000"

definition requestFromPool :: "database \<Rightarrow> (pool \<Rightarrow> pool) \<Rightarrow> hook_env \<Rightarrow> clock \<Rightarrow> oid \<Rightarrow> user
    \<Rightarrow> pool_body \<Rightarrow> http_error + (database \<times> request)" where
  "requestFromPool db updateCounts env clk newId u b =
     (case bodyPoolId b of
        None \<Rightarrow> Inl (HTTP 400 ''Validation errors'')
      | Some pid \<Rightarrow>
     (if trim (bodyPoolName b) = [] \<or> trim (bodyReason b) = []
      then Inl (HTTP 400 ''Validation errors'')
      else (case poolColl db pid of
        None \<Rightarrow> Inl (HTTP 404 ''Equipment pool not found'')
      | Some p0 \<Rightarrow>
          (let p = updateCounts p0 in
           if availableCount p = 0
           then Inl (HTTP 400 ''No equipment available in this pool'')
           else if designation u \<notin> set (authorizedDesignations p)
           then Inl (HTTP 403 ''You are not authorized to request equipment from this pool'')
           else (case onRequests db (\<lambda>coll. save coll env (clk 2) True True
                         (newRequest newId (userOid u) None Issue (trim (bodyReason b))
                            (orKeep (bodyPriority b) Medium)
                            (if bodyExpectedDuration b then Some (clk 0 + sevenDays) else None)
                            (clk 1))) of
                   Inl err \<Rightarrow> Inl (HTTP 500 ''Server error creating equipment request'')
                 | Inr res \<Rightarrow> Inr res)))))"

section \<open>Two creations in flight\<close>

text \<open>
  A save awaits the query of the pre-validate hook and then the write; between the two
  another request handler may run. A step of a schedule is either the hook of creation
  \<open>i\<close>, which reads the collection as it is then, or the write of creation \<open>i\<close>, with
  the identifier its hook computed. The state keeps the collection, the documents whose
  hook has run, and the outcome of each write.
\<close>

datatype step = Hook nat | Write nat

record flight =
  stored :: "request list"
  prepared :: "nat \<rightharpoonup> request"
  outcome :: "nat \<rightharpoonup> error + request"

definition runStep :: "hook_env \<Rightarrow> date \<Rightarrow> (nat \<Rightarrow> request) \<Rightarrow> step \<Rightarrow> flight \<Rightarrow> flight" where
  "runStep env now docs st f =
     (case st of
        Hook i \<Rightarrow> f\<lparr>prepared := (prepared f)(i \<mapsto> preValidate (stored f) env (docs i))\<rparr>
      | Write i \<Rightarrow>
          (case prepared f i of
             None \<Rightarrow> f
           | Some r \<Rightarrow>
               (case commit (stored f) now True True r of
                  Inl e \<Rightarrow> f\<lparr>outcome := (outcome f)(i \<mapsto> Inl e)\<rparr>
                | Inr (coll', r') \<Rightarrow> f\<lparr>stored := coll', outcome := (outcome f)(i \<mapsto> Inr r')\<rparr>)))"

definition runSchedule :: "hook_env \<Rightarrow> date \<Rightarrow> (nat \<Rightarrow> request) \<Rightarrow> step list \<Rightarrow> request list
    \<Rightarrow> flight" where
  "runSchedule env now docs sched coll =
     fold (runStep env now docs) sched \<lparr>stored = coll, prepared = Map.empty, outcome = Map.empty\<rparr>"


section \<open>Sample documents\<close>

definition sampleEquipment :: equipment where
  "sampleEquipment =
     \<lparr>name = ''Radio'', category = Communication, model = ''XTS-5000'',
      serialNumber = ''SN-1'', manufacturer = ''Motorola'', purchaseDate = 0, cost = 1200,
      condition = Good, status = Available, location = ''Armoury'', issuedTo = None,
      maintenanceHistory = [], specifications = [], images = [], equipmentNotes = None,
      warrantyInfo = \<lparr>warrantyPeriod = None, warrantyExpiry = None, warrantyProvider = None\<rparr>,
      addedBy = 1, lastModifiedBy = None, createdAt = 0, updatedAt = 0\<rparr>"

definition issuedEquipment :: equipment where
  "issuedEquipment =
     sampleEquipment\<lparr>status := Issued,
       issuedTo := Some \<lparr>userId = 7, issuedDate = 1000, custodyExpectedReturnDate = 2000\<rparr>,
       updatedAt := 1000\<rparr>"

text \<open>A clock that advances by five milliseconds from one reading to the next.\<close>

definition steppingClock :: clock where
  "steppingClock k = 1000 + 5 * int k"

definition noUpdate :: update_body where
  "noUpdate =
     \<lparr>bodyName = None, bodyCategory = None, bodyModel = None, bodyManufacturer = None,
      bodyCost = None, bodyLocation = None, bodyCondition = None, bodyStatus = None,
      bodyNotes = None, bodySpecifications = None, bodyWarrantyInfo = None\<rparr>"

definition sampleDb :: database where
  "sampleDb =
     \<lparr>equipmentColl = [1 \<mapsto> sampleEquipment, 2 \<mapsto> issuedEquipment],
      requestColl = [],
      poolColl = [5 \<mapsto> \<lparr>authorizedDesignations = [''Constable'', ''Inspector''],
                             availableCount = 3\<rparr>]\<rparr>"

definition sampleEnv :: hook_env where
  "sampleEnv =
     \<lparr>today = \<lparr>fullYear = 2025, monthIndex = 0, dayOfMonth = 1\<rparr>,
      findOneFails = False, fallbackNow = 1735689600000, fallbackRandom = ''k3j9x0q2z''\<rparr>"

definition pendingRequest :: request where
  "pendingRequest =
     \<lparr>rid = 10, requestId = Some ''REQ-20250101-0001'', requestedBy = 7,
      equipmentId = Some 1, requestType = Issue, requestStatus = Pending, priority = Medium,
      requestedDate = 100, expectedReturnDate = Some 9000, reason = ''Patrol duty'',
      adminNotes = None, processedBy = None, processedDate = None, approvedDate = None,
      completedDate = None, attachments = [], statusHistory = []\<rparr>"

definition approvedRequest :: request where
  "approvedRequest =
     pendingRequest\<lparr>requestStatus := Approved, processedBy := Some 3,
       processedDate := Some 200, approvedDate := Some 200, adminNotes := Some ''ok'',
       statusHistory := [\<lparr>entryStatus = Approved, changedBy = 3, changedDate = 200,
                          entryNotes = Some ''ok''\<rparr>]\<rparr>"

definition completedRequest :: request where
  "completedRequest =
     approvedRequest\<lparr>requestStatus := Completed, completedDate := Some 300,
       statusHistory := statusHistory approvedRequest @
         [\<lparr>entryStatus = Completed, changedBy = 3, changedDate = 300,
           entryNotes = Some ''ok''\<rparr>]\<rparr>"

definition rejectedRequest :: request where
  "rejectedRequest =
     pendingRequest\<lparr>requestStatus := Rejected, processedBy := Some 3,
       processedDate := Some 200, adminNotes := Some ''not needed'',
       statusHistory := [\<lparr>entryStatus = Rejected, changedBy = 3, changedDate = 200,
                          entryNotes = Some ''not needed''\<rparr>]\<rparr>"

definition cancelledRequest :: request where
  "cancelledRequest =
     pendingRequest\<lparr>requestStatus := Cancelled,
       statusHistory := [\<lparr>entryStatus = Cancelled, changedBy = 7, changedDate = 400,
                          entryNotes = None\<rparr>]\<rparr>"

definition sampleOfficer :: user where
  "sampleOfficer = \<lparr>userOid = 7, designation = ''Constable''\<rparr>"

definition samplePoolBody :: pool_body where
  "samplePoolBody =
     \<lparr>bodyPoolId = Some 5, bodyPoolName = ''Radios'', bodyReason = ''Patrol duty'',
      bodyPriority = None, bodyExpectedDuration = True\<rparr>"

text \<open>
  What the history hook appends, read off the saved document \<open>r'\<close>: one entry with
  the new status, the processor if there is one and else the requester, and the notes.
\<close>

definition appendsEntry :: "request \<Rightarrow> request \<Rightarrow> date \<Rightarrow> bool" where
  "appendsEntry r r' now =
     (statusHistory r' = statusHistory r @
        [\<lparr>entryStatus = requestStatus r',
          changedBy = (case processedBy r' of Some p \<Rightarrow> p | None \<Rightarrow> requestedBy r'),
          changedDate = now,
          entryNotes = adminNotes r'\<rparr>])"

definition sampleDocs :: "nat \<Rightarrow> request" where
  "sampleDocs i = newRequest (20 + i) 7 (Some 1) Issue ''Patrol duty'' Medium (Some 9000) 100"

section \<open>Properties of the equipment model\<close>

subsection \<open>Issue and return\<close>

text \<open>
  C6, as stated, fails on the default: the issue date and the default return date come
  from two readings of the clock. With the readings 1000 and 1005 the issue date is 1000
  and the default return date is 1005 plus 30 days, not the issue date plus 30 days.
\<close>

theorem issueToUser_default_counterexample:
  "status sampleEquipment = Available
   \<and> issueToUser sampleEquipment 7 None steppingClock
       = Inr (sampleEquipment\<lparr>status := Issued,
                issuedTo := Some \<lparr>userId = 7, issuedDate = 1000,
                                   custodyExpectedReturnDate = 2592001005\<rparr>,
                updatedAt := 1010\<rparr>)
   \<and> (2592001005 :: int) \<noteq> 1000 + 30 * 86400000"
  by (simp add: issueToUser_def thirtyDays_def steppingClock_def sampleEquipment_def)

text \<open>
  C6, amended. \<open>issueToUser\<close> returns a document exactly when the status is Available;
  on any other status it throws the error ``Equipment is not available for issue'', the
  invalid-transition failure. On success the status is Issued and the custody block holds
  the given holder, the issue date (the first clock reading) and the expected return
  date: the given one, or, when it is omitted, the second clock reading plus 30 days
  (2592000000 ms), which is not before the issue date plus 30 days when the clock does
  not run backwards.
\<close>

theorem issueToUser_spec:
  "((\<exists>e'. issueToUser e uid expected clk = Inr e') = (status e = Available))
   \<and> (status e \<noteq> Available \<longrightarrow>
        issueToUser e uid expected clk = Inl (Error ''Equipment is not available for issue''))
   \<and> (\<forall>e'. issueToUser e uid expected clk = Inr e' \<longrightarrow>
        status e' = Issued
        \<and> (\<exists>c. issuedTo e' = Some c \<and> userId c = uid \<and> issuedDate c = clk 0
              \<and> (\<forall>d. expected = Some d \<longrightarrow> custodyExpectedReturnDate c = d)
              \<and> (expected = None \<longrightarrow> custodyExpectedReturnDate c = clk 1 + 30 * 86400000)
              \<and> (expected = None \<and> clk 0 \<le> clk 1 \<longrightarrow>
                    issuedDate c + 30 * 86400000 \<le> custodyExpectedReturnDate c)))"
  by (auto simp: issueToUser_def thirtyDays_def)

theorem issueToUser_spec_witness:
  "status sampleEquipment = Available
   \<and> steppingClock 0 \<le> steppingClock 1
   \<and> (\<exists>e'. issueToUser sampleEquipment 7 None steppingClock = Inr e'
          \<and> status e' = Issued
          \<and> issuedTo e' = Some \<lparr>userId = 7, issuedDate = 1000,
                                 custodyExpectedReturnDate = 2592001005\<rparr>)
   \<and> (\<exists>e'. issueToUser sampleEquipment 7 (Some 2000) steppingClock = Inr e'
          \<and> status e' = Issued
          \<and> issuedTo e' = Some \<lparr>userId = 7, issuedDate = 1000,
                                 custodyExpectedReturnDate = 2000\<rparr>)
   \<and> issueToUser (sampleEquipment\<lparr>status := Retired\<rparr>) 7 None steppingClock
       = Inl (Error ''Equipment is not available for issue'')"
  using issueToUser_spec [of sampleEquipment 7 None steppingClock]
    issueToUser_spec [of sampleEquipment 7 "Some 2000" steppingClock]
    issueToUser_spec [of "sampleEquipment\<lparr>status := Retired\<rparr>" 7 None steppingClock]
  by (auto simp: sampleEquipment_def steppingClock_def)

text \<open>
  C7, as stated, fails on one field: both saves of the round trip set \<open>updatedAt\<close>, so
  after the return the record differs from the one before the issue in \<open>updatedAt\<close>.
\<close>

theorem issue_return_updatedAt_counterexample:
  "status sampleEquipment = Available
   \<and> issueToUser sampleEquipment 7 (Some 2000) (\<lambda>k. 1000) = Inr issuedEquipment
   \<and> returnFromUser issuedEquipment (\<lambda>k. 5000) = Inr (sampleEquipment\<lparr>updatedAt := 5000\<rparr>)
   \<and> updatedAt sampleEquipment = 0
   \<and> updatedAt (sampleEquipment\<lparr>updatedAt := 5000\<rparr>) \<noteq> updatedAt sampleEquipment"
  by (simp add: issueToUser_def returnFromUser_def sampleEquipment_def issuedEquipment_def)

text \<open>
  C7, amended. From an Available record, \<open>issueToUser\<close> for holder \<open>h1\<close> succeeds with
  status Issued and holder \<open>h1\<close>, and \<open>returnFromUser\<close> on the result succeeds with the
  original record whose custody block is cleared and whose \<open>updatedAt\<close> is the time of
  the return: the status is Available again and every other field is as before the issue.
\<close>

theorem issue_return_round_trip:
  "status e = Available \<Longrightarrow>
   \<exists>e1. issueToUser e h1 expected clk = Inr e1
      \<and> status e1 = Issued
      \<and> map_option userId (issuedTo e1) = Some h1
      \<and> returnFromUser e1 clk' = Inr (e\<lparr>issuedTo := None, updatedAt := clk' 0\<rparr>)"
  by (simp add: issueToUser_def returnFromUser_def)

theorem issue_return_round_trip_witness:
  "status sampleEquipment = Available
   \<and> (\<exists>e1. issueToUser sampleEquipment 7 None steppingClock = Inr e1
      \<and> status e1 = Issued
      \<and> map_option userId (issuedTo e1) = Some 7
      \<and> returnFromUser e1 (\<lambda>k. 5000) = Inr (sampleEquipment\<lparr>updatedAt := 5000\<rparr>))"
proof -
  have a: "status sampleEquipment = Available"
    by (simp add: sampleEquipment_def)
  have b: "sampleEquipment\<lparr>issuedTo := None, updatedAt := 5000\<rparr>
             = sampleEquipment\<lparr>updatedAt := 5000\<rparr>"
    by (simp add: sampleEquipment_def)
  show ?thesis
    using a issue_return_round_trip [OF a, of 7 None steppingClock "\<lambda>k. 5000"] b by simp
qed

subsection \<open>The custody invariant\<close>

text \<open>Both methods leave a record that satisfies the invariant, whatever they started from.\<close>

lemma issueToUser_custodyInvariant:
  "issueToUser e uid expected clk = Inr e' \<Longrightarrow> custodyInvariant e'"
  by (auto simp: issueToUser_def custodyInvariant_def split: if_splits)

lemma returnFromUser_custodyInvariant:
  "returnFromUser e clk = Inr e' \<Longrightarrow> custodyInvariant e'"
  by (auto simp: returnFromUser_def custodyInvariant_def split: if_splits)

text \<open>The update route writes the status of the body and never the custody block.\<close>

lemma applyUpdates_issuedTo: "issuedTo (applyUpdates b m now e) = issuedTo e"
  by (simp add: applyUpdates_def)

lemma applyUpdates_status:
  "status (applyUpdates b m now e) = orKeep (Option.bind (bodyStatus b) parseStatus) (status e)"
  by (simp add: applyUpdates_def)

text \<open>
  C3. The invariant ``status is Issued if and only if the custody block is present'' is
  kept by \<open>issueToUser\<close> and \<open>returnFromUser\<close> (the two lemmas above) and broken by the
  administrative update: on an Available record without custody, the body
  \<^verbatim>\<open>{status: 'Issued'}\<close> is accepted and leaves status Issued with no custody block; on an
  Issued record, the body \<^verbatim>\<open>{status: 'Available'}\<close> leaves status Available with the
  custody block still there.
\<close>

theorem updateEquipment_breaks_custodyInvariant:
  "custodyInvariant sampleEquipment
   \<and> (case updateEquipment sampleDb 1 (noUpdate\<lparr>bodyStatus := Some ''Issued''\<rparr>) 9 5000 of
        Inl err \<Rightarrow> False
      | Inr (db', e') \<Rightarrow>
          equipmentColl db' 1 = Some e' \<and> status e' = Issued \<and> issuedTo e' = None
          \<and> \<not> custodyInvariant e')
   \<and> custodyInvariant issuedEquipment
   \<and> (case updateEquipment sampleDb 2 (noUpdate\<lparr>bodyStatus := Some ''Available''\<rparr>) 9 5000 of
        Inl err \<Rightarrow> False
      | Inr (db', e') \<Rightarrow>
          equipmentColl db' 2 = Some e' \<and> status e' = Available \<and> issuedTo e' \<noteq> None
          \<and> \<not> custodyInvariant e')"
  by (simp add: updateEquipment_def updateBodyValid_def optionalOk_def noUpdate_def
      sampleDb_def applyUpdates_def orKeep_def parseStatus_def custodyInvariant_def
      sampleEquipment_def issuedEquipment_def Let_def)

subsection \<open>Age\<close>

lemma int_div_eq_iff:
  fixes a b q :: int
  assumes "0 < b"
  shows "(a div b = q) = (q * b \<le> a \<and> a < (q + 1) * b)"
proof
  assume "a div b = q"
  moreover have "a = b * (a div b) + a mod b" by simp
  moreover have "0 \<le> a mod b" "a mod b < b" using assms by simp_all
  ultimately show "q * b \<le> a \<and> a < (q + 1) * b"
    by (auto simp: algebra_simps)
next
  assume h: "q * b \<le> a \<and> a < (q + 1) * b"
  show "a div b = q"
  proof (rule int_div_pos_eq)
    show "a = b * q + (a - b * q)" by simp
    show "0 \<le> a - b * q" using h by (simp add: algebra_simps)
    show "a - b * q < b" using h by (simp add: algebra_simps)
  qed
qed

lemma age_bounds:
  "(age now e = k) =
     ((365 * k - 1) * 86400000 < \<bar>now - purchaseDate e\<bar>
      \<and> \<bar>now - purchaseDate e\<bar> \<le> (365 * k + 364) * 86400000)"
proof -
  define d where "d = \<bar>now - purchaseDate e\<bar>"
  define c where "c = (- d) div 86400000"
  have c: "c * 86400000 \<le> - d \<and> - d < (c + 1) * 86400000"
    using int_div_eq_iff [of 86400000 "- d" c] by (simp add: c_def)
  have "(age now e = k) = ((- c) div 365 = k)"
    by (simp add: age_def ceilDiv_def msPerDay_def Let_def d_def c_def)
  also have "\<dots> = (k * 365 \<le> - c \<and> - c < (k + 1) * 365)"
    using int_div_eq_iff [of 365 "- c" k] by simp
  also have "\<dots> = ((365 * k - 1) * 86400000 < d \<and> d \<le> (365 * k + 364) * 86400000)"
    using c by (auto simp: algebra_simps)
  finally show ?thesis by (simp add: d_def)
qed

text \<open>
  C9, as stated, fails: 364 days and one millisecond after the purchase, less than a
  year, the part of a day is rounded up to day 365 and the age is 1.
\<close>

theorem age_counterexample:
  "purchaseDate sampleEquipment = 0
   \<and> (31449600001 :: int) < 365 * 86400000
   \<and> age 31449600001 sampleEquipment = 1"
  by (simp add: age_def ceilDiv_def msPerDay_def sampleEquipment_def)

text \<open>
  C9, amended. The age is the number of whole 365-day blocks in the absolute distance
  between the clock and the purchase date, counted in days rounded up: it is \<open>k\<close>
  exactly when that distance in milliseconds is above \<open>365 k - 1\<close> days and at most
  \<open>365 k + 364\<close> days. So the age is 0 exactly up to 364 days from the purchase date,
  before or after it.
\<close>

theorem age_spec:
  "((age now e = k) =
      ((365 * k - 1) * 86400000 < \<bar>now - purchaseDate e\<bar>
       \<and> \<bar>now - purchaseDate e\<bar> \<le> (365 * k + 364) * 86400000))
   \<and> ((age now e = 0) = (\<bar>now - purchaseDate e\<bar> \<le> 364 * 86400000))"
  using age_bounds [of now e k] age_bounds [of now e 0] by auto


section \<open>Properties of the request model\<close>

subsection \<open>What a save does\<close>

lemma preValidate_fields:
  "rid (preValidate coll env r) = rid r"
  "requestedBy (preValidate coll env r) = requestedBy r"
  "equipmentId (preValidate coll env r) = equipmentId r"
  "requestType (preValidate coll env r) = requestType r"
  "requestStatus (preValidate coll env r) = requestStatus r"
  "expectedReturnDate (preValidate coll env r) = expectedReturnDate r"
  "reason (preValidate coll env r) = reason r"
  "adminNotes (preValidate coll env r) = adminNotes r"
  "processedBy (preValidate coll env r) = processedBy r"
  "completedDate (preValidate coll env r) = completedDate r"
  "statusHistory (preValidate coll env r) = statusHistory r"
  by (simp_all add: preValidate_def)

lemma preValidate_hasRequestId: "hasRequestId r \<Longrightarrow> preValidate coll env r = r"
  by (simp add: preValidate_def)

lemma validateRequest_preValidate:
  "validateRequest (preValidate coll env r) = validateRequest r"
  by (simp add: validateRequest_def preValidate_fields)

lemma preSave_fields:
  "rid (preSave m isNew now r) = rid r"
  "requestId (preSave m isNew now r) = requestId r"
  "requestedBy (preSave m isNew now r) = requestedBy r"
  "equipmentId (preSave m isNew now r) = equipmentId r"
  "requestStatus (preSave m isNew now r) = requestStatus r"
  "adminNotes (preSave m isNew now r) = adminNotes r"
  "processedBy (preSave m isNew now r) = processedBy r"
  "completedDate (preSave m isNew now r) = completedDate r"
  by (simp_all add: preSave_def)

lemma save_Inr:
  assumes "save coll env now isNew m r = Inr (coll', r')"
  shows "validateRequest r"
    and "r' = preSave m isNew now (preValidate coll env r)"
    and "coll' = (if isNew then coll @ [r'] else map (\<lambda>x. if rid x = rid r then r' else x) coll)"
  using assms
  by (auto simp: save_def commit_def Let_def validateRequest_preValidate preSave_fields
      preValidate_fields split: if_splits)

lemma save_history:
  assumes "save coll env now isNew m r = Inr (coll', r')"
  shows "statusHistory r' =
           (if m \<and> \<not> isNew
            then statusHistory r @
              [\<lparr>entryStatus = requestStatus r',
                changedBy = (case processedBy r' of Some p \<Rightarrow> p | None \<Rightarrow> requestedBy r'),
                changedDate = now, entryNotes = adminNotes r'\<rparr>]
            else statusHistory r)"
proof -
  have r': "r' = preSave m isNew now (preValidate coll env r)"
    by (rule save_Inr(2) [OF assms])
  show ?thesis
    unfolding r' by (simp add: preSave_def preValidate_fields cong: option.case_cong)
qed

lemma save_fields:
  assumes "save coll env now isNew m r = Inr (coll', r')"
  shows "requestStatus r' = requestStatus r" and "processedBy r' = processedBy r"
    and "adminNotes r' = adminNotes r" and "requestedBy r' = requestedBy r"
    and "completedDate r' = completedDate r" and "rid r' = rid r"
  using save_Inr(2) [OF assms]
  by (simp_all add: preSave_fields preValidate_fields)

lemma approve_history:
  assumes "approve coll env clk r a n = Inr (coll', r')" and "requestStatus r \<noteq> Approved"
  shows "requestStatus r' = Approved \<and> appendsEntry r r' (clk 2)
         \<and> coll' = map (\<lambda>x. if rid x = rid r then r' else x) coll"
  using save_history [OF assms(1) [unfolded approve_def]] save_fields [OF assms(1) [unfolded approve_def]]
    save_Inr(3) [OF assms(1) [unfolded approve_def]] assms(2)
  by (simp add: appendsEntry_def)

lemma reject_history:
  assumes "reject coll env clk r a n = Inr (coll', r')" and "requestStatus r \<noteq> Rejected"
  shows "requestStatus r' = Rejected \<and> appendsEntry r r' (clk 1)
         \<and> coll' = map (\<lambda>x. if rid x = rid r then r' else x) coll"
  using save_history [OF assms(1) [unfolded reject_def]] save_fields [OF assms(1) [unfolded reject_def]]
    save_Inr(3) [OF assms(1) [unfolded reject_def]] assms(2)
  by (simp add: appendsEntry_def)

lemma complete_history:
  assumes "complete coll env clk r a n = Inr (coll', r')" and "requestStatus r \<noteq> Completed"
  shows "requestStatus r' = Completed \<and> appendsEntry r r' (clk 1)
         \<and> coll' = map (\<lambda>x. if rid x = rid r then r' else x) coll"
  using save_history [OF assms(1) [unfolded complete_def]] save_fields [OF assms(1) [unfolded complete_def]]
    save_Inr(3) [OF assms(1) [unfolded complete_def]] assms(2)
  by (simp add: appendsEntry_def)

lemma onRequests_Inr:
  "onRequests db m = Inr (db', r') \<Longrightarrow>
     \<exists>coll'. m (requestColl db) = Inr (coll', r') \<and> db' = db\<lparr>requestColl := coll'\<rparr>"
  by (auto simp: onRequests_def split: sum.splits)

lemma cancelRequest_Inr:
  assumes "cancelRequest db env clk reqId u = Inr (db', r')"
  shows "\<exists>r0 \<in> set (requestColl db). rid r0 = reqId \<and> requestedBy r0 = userOid u
           \<and> requestStatus r0 = Pending \<and> requestStatus r' = Cancelled
           \<and> appendsEntry r0 r' (clk 0)
           \<and> requestColl db' = map (\<lambda>x. if rid x = reqId then r' else x) (requestColl db)
           \<and> equipmentColl db' = equipmentColl db"
proof -
  obtain r0 where f: "find (\<lambda>r. rid r = reqId \<and> requestedBy r = userOid u) (requestColl db) = Some r0"
    using assms by (auto simp: cancelRequest_def split: option.splits)
  have p: "requestStatus r0 = Pending"
    using assms f by (auto simp: cancelRequest_def split: if_splits)
  have "onRequests db (\<lambda>coll. save coll env (clk 0) False (requestStatus r0 \<noteq> Cancelled)
            (r0\<lparr>requestStatus := Cancelled\<rparr>)) = Inr (db', r')"
    using assms f p by (auto simp: cancelRequest_def split: sum.splits)
  then obtain coll' where s: "save (requestColl db) env (clk 0) False (requestStatus r0 \<noteq> Cancelled)
            (r0\<lparr>requestStatus := Cancelled\<rparr>) = Inr (coll', r')" and d: "db' = db\<lparr>requestColl := coll'\<rparr>"
    using onRequests_Inr by blast
  have m: "r0 \<in> set (requestColl db) \<and> rid r0 = reqId \<and> requestedBy r0 = userOid u"
    using f by (auto simp: find_Some_iff)
  show ?thesis
    using m p d save_history [OF s] save_fields [OF s] save_Inr(3) [OF s]
    by (intro bexI [of _ r0]) (simp_all add: appendsEntry_def)
qed


lemma save_prefix:
  assumes "save coll env now isNew m r = Inr (coll', r')"
  shows "prefix (statusHistory r) (statusHistory r')"
  using save_history [OF assms] by simp

lemma save_new_history:
  assumes "save coll env now True m r = Inr (coll', r')"
  shows "statusHistory r' = statusHistory r"
  using save_history [OF assms] by simp


subsection \<open>The status history\<close>

text \<open>
  C10. A save that changes the status of a stored request appends exactly one entry to
  \<open>statusHistory\<close>: the new status, \<open>changedBy\<close> the processor when there is one and
  the requester otherwise, and the notes as they are then. This holds for \<open>approve\<close>,
  \<open>reject\<close>, \<open>complete\<close> and the cancel route, and the stored document is the one with
  the new entry. The save of a new document appends nothing, and after any save the old
  history is a prefix of the new one: nothing is removed.
\<close>

theorem statusHistory_append:
  "(approve coll env clk r a n = Inr (c1, r1) \<and> requestStatus r \<noteq> Approved \<longrightarrow>
      requestStatus r1 = Approved \<and> appendsEntry r r1 (clk 2)
      \<and> c1 = map (\<lambda>x. if rid x = rid r then r1 else x) coll)
   \<and> (reject coll env clk r a n = Inr (c2, r2) \<and> requestStatus r \<noteq> Rejected \<longrightarrow>
      requestStatus r2 = Rejected \<and> appendsEntry r r2 (clk 1)
      \<and> c2 = map (\<lambda>x. if rid x = rid r then r2 else x) coll)
   \<and> (complete coll env clk r a n = Inr (c3, r3) \<and> requestStatus r \<noteq> Completed \<longrightarrow>
      requestStatus r3 = Completed \<and> appendsEntry r r3 (clk 1)
      \<and> c3 = map (\<lambda>x. if rid x = rid r then r3 else x) coll)
   \<and> (cancelRequest db env clk reqId u = Inr (db4, r4) \<longrightarrow>
      (\<exists>r0 \<in> set (requestColl db). rid r0 = reqId \<and> requestStatus r0 = Pending
         \<and> requestStatus r4 = Cancelled \<and> appendsEntry r0 r4 (clk 0)
         \<and> requestColl db4 = map (\<lambda>x. if rid x = reqId then r4 else x) (requestColl db)))
   \<and> (save coll env now True m r = Inr (c5, r5) \<longrightarrow> statusHistory r5 = statusHistory r)
   \<and> (save coll env now isNew m r = Inr (c6, r6) \<longrightarrow>
        prefix (statusHistory r) (statusHistory r6))"
proof -
  have 4: "cancelRequest db env clk reqId u = Inr (db4, r4) \<longrightarrow>
      (\<exists>r0 \<in> set (requestColl db). rid r0 = reqId \<and> requestStatus r0 = Pending
         \<and> requestStatus r4 = Cancelled \<and> appendsEntry r0 r4 (clk 0)
         \<and> requestColl db4 = map (\<lambda>x. if rid x = reqId then r4 else x) (requestColl db))"
    using cancelRequest_Inr [of db env clk reqId u db4 r4] by blast
  show ?thesis
    using approve_history [of coll env clk r a n c1 r1]
      reject_history [of coll env clk r a n c2 r2]
      complete_history [of coll env clk r a n c3 r3] 4
      save_new_history [of coll env now m r c5 r5]
      save_prefix [of coll env now isNew m r c6 r6]
    by blast
qed


lemma approve_pending_eval:
  "approve [pendingRequest] sampleEnv (\<lambda>k. 200) pendingRequest 3 (Some ''ok'')
     = Inr ([approvedRequest], approvedRequest)"
  by (simp add: approve_def save_def commit_def preValidate_def hasRequestId_def
      validateRequest_def preSave_def pendingRequest_def approvedRequest_def Let_def)

lemma reject_pending_eval:
  "reject [pendingRequest] sampleEnv (\<lambda>k. 200) pendingRequest 3 (Some ''not needed'')
     = Inr ([rejectedRequest], rejectedRequest)"
  by (simp add: reject_def save_def commit_def preValidate_def hasRequestId_def
      validateRequest_def preSave_def pendingRequest_def rejectedRequest_def Let_def)

lemma complete_approved_eval:
  "complete [approvedRequest] sampleEnv (\<lambda>k. 300) approvedRequest 3 None
     = Inr ([completedRequest], completedRequest)"
  by (simp add: complete_def save_def commit_def preValidate_def hasRequestId_def truthy_def
      validateRequest_def preSave_def pendingRequest_def approvedRequest_def
      completedRequest_def Let_def)

lemma cancel_pending_eval:
  "cancelRequest (sampleDb\<lparr>requestColl := [pendingRequest]\<rparr>) sampleEnv (\<lambda>k. 400) 10
       sampleOfficer
     = Inr (sampleDb\<lparr>requestColl := [cancelledRequest]\<rparr>, cancelledRequest)"
  by (simp add: cancelRequest_def onRequests_def save_def commit_def preValidate_def
      hasRequestId_def validateRequest_def preSave_def pendingRequest_def
      cancelledRequest_def sampleOfficer_def sampleDb_def Let_def)

lemma save_new_eval:
  "save [] sampleEnv 0 True True pendingRequest = Inr ([pendingRequest], pendingRequest)"
  by (simp add: save_def commit_def preValidate_def hasRequestId_def validateRequest_def
      preSave_def pendingRequest_def Let_def)

theorem statusHistory_append_witness:
  "approve [pendingRequest] sampleEnv (\<lambda>k. 200) pendingRequest 3 (Some ''ok'')
       = Inr ([approvedRequest], approvedRequest)
   \<and> requestStatus pendingRequest \<noteq> Approved
   \<and> appendsEntry pendingRequest approvedRequest 200
   \<and> reject [pendingRequest] sampleEnv (\<lambda>k. 200) pendingRequest 3 (Some ''not needed'')
       = Inr ([rejectedRequest], rejectedRequest)
   \<and> appendsEntry pendingRequest rejectedRequest 200
   \<and> complete [approvedRequest] sampleEnv (\<lambda>k. 300) approvedRequest 3 None
       = Inr ([completedRequest], completedRequest)
   \<and> requestStatus approvedRequest \<noteq> Completed
   \<and> appendsEntry approvedRequest completedRequest 300
   \<and> cancelRequest (sampleDb\<lparr>requestColl := [pendingRequest]\<rparr>) sampleEnv (\<lambda>k. 400) 10
         sampleOfficer
       = Inr (sampleDb\<lparr>requestColl := [cancelledRequest]\<rparr>, cancelledRequest)
   \<and> appendsEntry pendingRequest cancelledRequest 400
   \<and> save [] sampleEnv 0 True True pendingRequest = Inr ([pendingRequest], pendingRequest)
   \<and> statusHistory pendingRequest = []
   \<and> length (statusHistory completedRequest) = 2"
proof -
  have p: "requestStatus pendingRequest \<noteq> Approved" "requestStatus pendingRequest \<noteq> Rejected"
    "requestStatus approvedRequest \<noteq> Completed" "statusHistory pendingRequest = []"
    "length (statusHistory completedRequest) = 2"
    by (simp_all add: pendingRequest_def approvedRequest_def completedRequest_def)
  have c: "set (requestColl (sampleDb\<lparr>requestColl := [pendingRequest]\<rparr>)) = {pendingRequest}"
    by simp
  note t = statusHistory_append [where coll = "[pendingRequest]" and env = sampleEnv
      and clk = "\<lambda>k. 200" and r = pendingRequest and a = 3 and n = "Some ''ok''"
      and ?c1.0 = "[approvedRequest]" and ?r1.0 = approvedRequest]
  note u = statusHistory_append [where coll = "[pendingRequest]" and env = sampleEnv
      and clk = "\<lambda>k. 200" and r = pendingRequest and a = 3 and n = "Some ''not needed''"
      and ?c2.0 = "[rejectedRequest]" and ?r2.0 = rejectedRequest]
  note v = statusHistory_append [where coll = "[approvedRequest]" and env = sampleEnv
      and clk = "\<lambda>k. 300" and r = approvedRequest and a = 3 and n = None
      and ?c3.0 = "[completedRequest]" and ?r3.0 = completedRequest]
  note w = statusHistory_append [where db = "sampleDb\<lparr>requestColl := [pendingRequest]\<rparr>"
      and env = sampleEnv and clk = "\<lambda>k. 400" and reqId = 10 and u = sampleOfficer
      and ?db4.0 = "sampleDb\<lparr>requestColl := [cancelledRequest]\<rparr>"
      and ?r4.0 = cancelledRequest]
  have 1: "appendsEntry pendingRequest approvedRequest 200"
    using t approve_pending_eval p by blast
  have 2: "appendsEntry pendingRequest rejectedRequest 200"
    using u reject_pending_eval p by blast
  have 3: "appendsEntry approvedRequest completedRequest 300"
    using v complete_approved_eval p by blast
  have 4: "appendsEntry pendingRequest cancelledRequest 400"
    using w cancel_pending_eval unfolding c by blast
  show ?thesis
    using 1 2 3 4 p approve_pending_eval reject_pending_eval complete_approved_eval
      cancel_pending_eval save_new_eval
    by simp
qed


subsection \<open>The source state of a transition\<close>

text \<open>
  The cancel route checks the source state: a request that is found and is not Pending
  is answered with 400 and nothing is written.
\<close>

lemma cancelRequest_not_Pending:
  assumes "find (\<lambda>r. rid r = reqId \<and> requestedBy r = userOid u) (requestColl db) = Some r0"
    and "requestStatus r0 \<noteq> Pending"
  shows "cancelRequest db env clk reqId u = Inl (HTTP 400 ''Only pending requests can be cancelled'')"
  using assms by (simp add: cancelRequest_def)

text \<open>
  The methods \<open>approve\<close>, \<open>reject\<close> and \<open>complete\<close> do not look at the status they
  start from: on a stored, valid request with notes of at most 500 characters each of
  them saves its target status.
\<close>

lemma save_succeeds:
  assumes "hasRequestId r" and "validateRequest r"
    and "\<not> list_ex (\<lambda>x. rid x \<noteq> rid r \<and> requestId x = requestId r) coll"
  shows "\<exists>coll' r'. save coll env now isNew m r = Inr (coll', r')"
  using assms
  by (simp add: save_def commit_def preValidate_hasRequestId preSave_fields Let_def)

lemma approve_any_state:
  assumes "hasRequestId r" and "validateRequest r" and "optionalOk (\<lambda>s. length s \<le> 500) n"
    and "\<not> list_ex (\<lambda>x. rid x \<noteq> rid r \<and> requestId x = requestId r) coll"
  shows "\<exists>coll' r'. approve coll env clk r a n = Inr (coll', r') \<and> requestStatus r' = Approved"
proof -
  let ?r = "r\<lparr>requestStatus := Approved, processedBy := Some a, processedDate := Some (clk 0),
               approvedDate := Some (clk 1), adminNotes := n\<rparr>"
  have "hasRequestId ?r" using assms(1) by (simp add: hasRequestId_def)
  moreover have "validateRequest ?r"
    using assms(2,3) by (simp add: validateRequest_def optionalOk_def)
  moreover have "\<not> list_ex (\<lambda>x. rid x \<noteq> rid ?r \<and> requestId x = requestId ?r) coll"
    using assms(4) by simp
  ultimately obtain coll' r' where
    s: "save coll env (clk 2) False (requestStatus r \<noteq> Approved) ?r = Inr (coll', r')"
    using save_succeeds by blast
  then have "requestStatus r' = Approved" using save_fields(1) [OF s] by simp
  then show ?thesis using s by (simp add: approve_def)
qed

lemma complete_any_state:
  assumes "hasRequestId r" and "validateRequest r" and "optionalOk (\<lambda>s. length s \<le> 500) n"
    and "\<not> list_ex (\<lambda>x. rid x \<noteq> rid r \<and> requestId x = requestId r) coll"
  shows "\<exists>coll' r'. complete coll env clk r a n = Inr (coll', r') \<and> requestStatus r' = Completed"
proof -
  let ?r = "r\<lparr>requestStatus := Completed, processedBy := Some a, completedDate := Some (clk 0),
               adminNotes := (if truthy n then n else adminNotes r)\<rparr>"
  have "hasRequestId ?r" using assms(1) by (simp add: hasRequestId_def)
  moreover have "validateRequest ?r"
    using assms(2,3) by (simp add: validateRequest_def optionalOk_def)
  moreover have "\<not> list_ex (\<lambda>x. rid x \<noteq> rid ?r \<and> requestId x = requestId ?r) coll"
    using assms(4) by simp
  ultimately obtain coll' r' where
    s: "save coll env (clk 1) False (requestStatus r \<noteq> Completed) ?r = Inr (coll', r')"
    using save_succeeds by blast
  then have "requestStatus r' = Completed" using save_fields(1) [OF s] by simp
  then show ?thesis using s by (simp add: complete_def)
qed

text \<open>
  C1. The claim holds for the cancel route (the lemma above and the theorem on the
  status history) and fails for the three methods: \<open>approve\<close> on a Completed request
  does not fail, it saves the request as Approved again, with new processing fields and
  one more history entry; \<open>complete\<close> on a Pending request saves it as Completed without
  any approval; \<open>reject\<close> on a Completed request saves it as Rejected.
\<close>

theorem methods_ignore_source_state:
  "requestStatus completedRequest = Completed
   \<and> (case approve [completedRequest] sampleEnv (\<lambda>k. 500) completedRequest 9 (Some ''again'') of
        Inl err \<Rightarrow> False
      | Inr (coll', r') \<Rightarrow>
          requestStatus r' = Approved \<and> processedBy r' = Some 9 \<and> approvedDate r' = Some 500
          \<and> adminNotes r' = Some ''again''
          \<and> length (statusHistory r') = length (statusHistory completedRequest) + 1
          \<and> coll' = [r'])
   \<and> requestStatus pendingRequest = Pending
   \<and> (case complete [pendingRequest] sampleEnv (\<lambda>k. 500) pendingRequest 9 None of
        Inl err \<Rightarrow> False
      | Inr (coll', r') \<Rightarrow>
          requestStatus r' = Completed \<and> completedDate r' = Some 500 \<and> coll' = [r'])
   \<and> (case reject [completedRequest] sampleEnv (\<lambda>k. 500) completedRequest 9 (Some ''no'') of
        Inl err \<Rightarrow> False
      | Inr (coll', r') \<Rightarrow> requestStatus r' = Rejected \<and> coll' = [r'])"
  by (simp add: approve_def complete_def reject_def save_def commit_def preValidate_def
      hasRequestId_def truthy_def validateRequest_def preSave_def pendingRequest_def
      approvedRequest_def completedRequest_def Let_def)

subsection \<open>Requests and custody\<close>

text \<open>
  C2, as stated, fails: completing an approved Issue request for an Available item saves
  the request as Completed, and the item is still Available with no custody block.
\<close>

theorem complete_custody_counterexample:
  "requestType approvedRequest = Issue
   \<and> equipmentId approvedRequest = Some 1
   \<and> equipmentColl (sampleDb\<lparr>requestColl := [approvedRequest]\<rparr>) 1 = Some sampleEquipment
   \<and> status sampleEquipment = Available
   \<and> issuedTo sampleEquipment = None
   \<and> onRequests (sampleDb\<lparr>requestColl := [approvedRequest]\<rparr>)
        (\<lambda>coll. complete coll sampleEnv (\<lambda>k. 300) approvedRequest 3 None)
       = Inr (sampleDb\<lparr>requestColl := [completedRequest]\<rparr>, completedRequest)
   \<and> requestStatus completedRequest = Completed
   \<and> equipmentColl (sampleDb\<lparr>requestColl := [completedRequest]\<rparr>) 1 = Some sampleEquipment"
  by (simp add: onRequests_def complete_approved_eval)
    (simp add: sampleDb_def sampleEquipment_def pendingRequest_def approvedRequest_def
      completedRequest_def)

text \<open>
  C2, amended. For every request, neither \<open>approve\<close> nor \<open>complete\<close> changes the
  equipment collection: \<open>complete\<close> saves the request as Completed with its completed
  date and calls nothing of the equipment model. An Available item becomes Issued, with
  the requester as holder, when \<open>issueToUser\<close> is called on it with the requester.
\<close>

theorem request_methods_leave_equipment:
  "(onRequests db (\<lambda>coll. approve coll env clk r a n) = Inr (db1, r1) \<longrightarrow>
      equipmentColl db1 = equipmentColl db \<and> requestStatus r1 = Approved)
   \<and> (onRequests db (\<lambda>coll. complete coll env clk r a n) = Inr (db2, r2) \<longrightarrow>
      equipmentColl db2 = equipmentColl db \<and> requestStatus r2 = Completed
      \<and> completedDate r2 = Some (clk 0))
   \<and> (status e = Available \<longrightarrow>
      (\<exists>e'. issueToUser e (requestedBy r) (expectedReturnDate r) clk = Inr e'
          \<and> status e' = Issued
          \<and> map_option userId (issuedTo e') = Some (requestedBy r)))"
proof -
  have 1: "onRequests db (\<lambda>coll. approve coll env clk r a n) = Inr (db1, r1) \<longrightarrow>
      equipmentColl db1 = equipmentColl db \<and> requestStatus r1 = Approved"
  proof
    assume "onRequests db (\<lambda>coll. approve coll env clk r a n) = Inr (db1, r1)"
    then obtain coll' where s: "approve (requestColl db) env clk r a n = Inr (coll', r1)"
      and d: "db1 = db\<lparr>requestColl := coll'\<rparr>"
      using onRequests_Inr by blast
    show "equipmentColl db1 = equipmentColl db \<and> requestStatus r1 = Approved"
      using d save_fields(1) [OF s [unfolded approve_def]] by simp
  qed
  have 2: "onRequests db (\<lambda>coll. complete coll env clk r a n) = Inr (db2, r2) \<longrightarrow>
      equipmentColl db2 = equipmentColl db \<and> requestStatus r2 = Completed
      \<and> completedDate r2 = Some (clk 0)"
  proof
    assume "onRequests db (\<lambda>coll. complete coll env clk r a n) = Inr (db2, r2)"
    then obtain coll' where s: "complete (requestColl db) env clk r a n = Inr (coll', r2)"
      and d: "db2 = db\<lparr>requestColl := coll'\<rparr>"
      using onRequests_Inr by blast
    show "equipmentColl db2 = equipmentColl db \<and> requestStatus r2 = Completed
      \<and> completedDate r2 = Some (clk 0)"
      using d save_fields(1,5) [OF s [unfolded complete_def]] by simp
  qed
  have 3: "status e = Available \<longrightarrow>
      (\<exists>e'. issueToUser e (requestedBy r) (expectedReturnDate r) clk = Inr e'
          \<and> status e' = Issued
          \<and> map_option userId (issuedTo e') = Some (requestedBy r))"
    by (simp add: issueToUser_def)
  show ?thesis using 1 2 3 by blast
qed

theorem request_methods_leave_equipment_witness:
  "onRequests (sampleDb\<lparr>requestColl := [pendingRequest]\<rparr>)
        (\<lambda>coll. approve coll sampleEnv (\<lambda>k. 200) pendingRequest 3 (Some ''ok''))
       = Inr (sampleDb\<lparr>requestColl := [approvedRequest]\<rparr>, approvedRequest)
   \<and> equipmentColl (sampleDb\<lparr>requestColl := [approvedRequest]\<rparr>)
       = equipmentColl (sampleDb\<lparr>requestColl := [pendingRequest]\<rparr>)
   \<and> onRequests (sampleDb\<lparr>requestColl := [approvedRequest]\<rparr>)
        (\<lambda>coll. complete coll sampleEnv (\<lambda>k. 300) approvedRequest 3 None)
       = Inr (sampleDb\<lparr>requestColl := [completedRequest]\<rparr>, completedRequest)
   \<and> equipmentColl (sampleDb\<lparr>requestColl := [completedRequest]\<rparr>)
       = equipmentColl (sampleDb\<lparr>requestColl := [approvedRequest]\<rparr>)
   \<and> requestStatus completedRequest = Completed
   \<and> status sampleEquipment = Available
   \<and> (\<exists>e'. issueToUser sampleEquipment (requestedBy pendingRequest)
               (expectedReturnDate pendingRequest) (\<lambda>k. 200) = Inr e'
          \<and> status e' = Issued
          \<and> map_option userId (issuedTo e') = Some 7)"
proof -
  have a: "onRequests (sampleDb\<lparr>requestColl := [pendingRequest]\<rparr>)
        (\<lambda>coll. approve coll sampleEnv (\<lambda>k. 200) pendingRequest 3 (Some ''ok''))
       = Inr (sampleDb\<lparr>requestColl := [approvedRequest]\<rparr>, approvedRequest)"
    by (simp add: onRequests_def approve_pending_eval)
  have c: "onRequests (sampleDb\<lparr>requestColl := [approvedRequest]\<rparr>)
        (\<lambda>coll. complete coll sampleEnv (\<lambda>k. 300) approvedRequest 3 None)
       = Inr (sampleDb\<lparr>requestColl := [completedRequest]\<rparr>, completedRequest)"
    by (simp add: onRequests_def complete_approved_eval)
  have s: "status sampleEquipment = Available" "requestedBy pendingRequest = 7"
    by (simp_all add: sampleEquipment_def pendingRequest_def)
  note t = request_methods_leave_equipment
    [where db = "sampleDb\<lparr>requestColl := [pendingRequest]\<rparr>" and env = sampleEnv
      and clk = "\<lambda>k. 200" and r = pendingRequest and a = 3 and n = "Some ''ok''"
      and ?db1.0 = "sampleDb\<lparr>requestColl := [approvedRequest]\<rparr>" and ?r1.0 = approvedRequest
      and e = sampleEquipment]
  note u = request_methods_leave_equipment
    [where db = "sampleDb\<lparr>requestColl := [approvedRequest]\<rparr>" and env = sampleEnv
      and clk = "\<lambda>k. 300" and r = approvedRequest and a = 3 and n = None
      and ?db2.0 = "sampleDb\<lparr>requestColl := [completedRequest]\<rparr>"
      and ?r2.0 = completedRequest]
  have 1: "equipmentColl (sampleDb\<lparr>requestColl := [approvedRequest]\<rparr>)
       = equipmentColl (sampleDb\<lparr>requestColl := [pendingRequest]\<rparr>)"
    using t a by blast
  have 2: "equipmentColl (sampleDb\<lparr>requestColl := [completedRequest]\<rparr>)
       = equipmentColl (sampleDb\<lparr>requestColl := [approvedRequest]\<rparr>)
       \<and> requestStatus completedRequest = Completed"
    using u c by blast
  have 3: "\<exists>e'. issueToUser sampleEquipment (requestedBy pendingRequest)
               (expectedReturnDate pendingRequest) (\<lambda>k. 200) = Inr e'
          \<and> status e' = Issued
          \<and> map_option userId (issuedTo e') = Some 7"
    using t s by simp
  show ?thesis using a c 1 2 3 s by blast
qed

subsection \<open>Requests from a pool\<close>

text \<open>
  The two refusals of the route, in the order of the code: an empty pool first, then the
  designation.
\<close>

lemma requestFromPool_unavailable:
  assumes "bodyPoolId b = Some pid" and "trim (bodyPoolName b) \<noteq> []"
    and "trim (bodyReason b) \<noteq> []" and "poolColl db pid = Some p"
    and "availableCount (updateCounts p) = 0"
  shows "requestFromPool db updateCounts env clk newId u b
           = Inl (HTTP 400 ''No equipment available in this pool'')"
  using assms by (simp add: requestFromPool_def)

lemma requestFromPool_unauthorized:
  assumes "bodyPoolId b = Some pid" and "trim (bodyPoolName b) \<noteq> []"
    and "trim (bodyReason b) \<noteq> []" and "poolColl db pid = Some p"
    and "availableCount (updateCounts p) \<noteq> 0"
    and "designation u \<notin> set (authorizedDesignations (updateCounts p))"
  shows "requestFromPool db updateCounts env clk newId u b
           = Inl (HTTP 403 ''You are not authorized to request equipment from this pool'')"
  using assms by (simp add: requestFromPool_def)

text \<open>
  The request the route builds has no \<^verbatim>\<open>equipmentId\<close>, which the schema requires: its
  save is refused by the validation, whatever the pool and the requester.
\<close>

lemma save_without_equipmentId:
  "equipmentId r = None \<Longrightarrow>
     save coll env now isNew m r = Inl (ValidationError ''Request validation failed'')"
  by (simp add: save_def commit_def validateRequest_preValidate)
    (simp add: validateRequest_def)

lemma requestFromPool_never_succeeds:
  "requestFromPool db updateCounts env clk newId u b \<noteq> Inr res"
  by (simp add: requestFromPool_def onRequests_def save_without_equipmentId newRequest_def
      Let_def split: option.splits)

text \<open>
  C8. The route checks the capacity and the designation, but its success case does not
  exist: for an authorized officer and a pool with three available items, the request
  is built, its save fails the validation, and the route answers 500; no request is
  created.
\<close>

theorem requestFromPool_authorized_fails:
  "poolColl sampleDb 5
       = Some \<lparr>authorizedDesignations = [''Constable'', ''Inspector''], availableCount = 3\<rparr>
   \<and> designation sampleOfficer = ''Constable''
   \<and> requestFromPool sampleDb (\<lambda>p. p) sampleEnv (\<lambda>k. 1000) 11 sampleOfficer samplePoolBody
       = Inl (HTTP 500 ''Server error creating equipment request'')"
  by (simp add: requestFromPool_def onRequests_def save_without_equipmentId newRequest_def
      sampleDb_def sampleOfficer_def samplePoolBody_def trim_def isSpace_def Let_def)


section \<open>Properties of the identifier generator\<close>

subsection \<open>Decimal strings\<close>

lemma digitChar_isDecimal: "d < 10 \<Longrightarrow> isDecimal (digitChar d)"
proof -
  assume "d < 10"
  then have "d \<in> {0, 1, 2, 3, 4, 5, 6, 7, 8, 9}" by auto
  then show ?thesis by (auto simp: digitChar_def isDecimal_def)
qed

lemma isDecimal_digitValue:
  "isDecimal c \<Longrightarrow> \<exists>v<10. digitValue c = Some v \<and> of_char c = (48 + v :: nat)"
  apply (simp add: isDecimal_def)
  apply (elim disjE)
  apply (simp_all add: digitValue_def)
  done

lemma digitValue_digitChar: "d < 10 \<Longrightarrow> digitValue (digitChar d) = Some d"
proof -
  assume "d < 10"
  then have "d \<in> {0, 1, 2, 3, 4, 5, 6, 7, 8, 9}" by auto
  then show ?thesis by (auto simp: digitChar_def digitValue_def)
qed

lemma isDecimal_facts:
  assumes "isDecimal c"
  shows "\<not> isSpace c" and "c \<noteq> CHR ''-''" and "c \<noteq> CHR ''+''" and "c \<noteq> CHR ''x''"
    and "c \<noteq> CHR ''X''" and "isDigitIn 10 c"
  using assms
  by (simp_all add: isDecimal_def, elim disjE, simp_all add: isSpace_def isDigitIn_def digitValue_def)+

lemma natToString_decimal: "\<forall>c \<in> set (natToString n). isDecimal c"
proof (induction n rule: natToString.induct)
  case (1 n)
  show ?case
  proof (cases "n < 10")
    case True
    then show ?thesis by (subst natToString.simps) (simp add: digitChar_isDecimal)
  next
    case False
    then have "\<forall>c \<in> set (natToString (n div 10)). isDecimal c" using 1 by simp
    then show ?thesis using False
      by (subst natToString.simps) (simp add: digitChar_isDecimal)
  qed
qed

lemma natToString_nonempty: "natToString n \<noteq> []"
  by (subst natToString.simps) simp

lemma digitsValue_snoc:
  "digitsValue r (xs @ [c]) = digitsValue r xs * r + (case digitValue c of Some v \<Rightarrow> v | None \<Rightarrow> 0)"
  by (simp add: digitsValue_def)

lemma digitsValue_natToString: "digitsValue 10 (natToString n) = n"
proof (induction n rule: natToString.induct)
  case (1 n)
  show ?case
  proof (cases "n < 10")
    case True
    then show ?thesis
      by (subst natToString.simps) (simp add: digitsValue_def digitValue_digitChar)
  next
    case False
    then have "digitsValue 10 (natToString (n div 10)) = n div 10" using 1 by simp
    then show ?thesis using False
      by (subst natToString.simps) (simp add: digitsValue_snoc digitValue_digitChar)
  qed
qed

lemma foldl_digits_shift:
  fixes a r :: nat
  shows "foldl (\<lambda>acc c. acc * r + f c) a xs = a * r ^ length xs + foldl (\<lambda>acc c. acc * r + f c) 0 xs"
proof (induction xs arbitrary: a)
  case Nil
  show ?case by simp
next
  case (Cons x xs)
  show ?case
    using Cons [of "a * r + f x"] Cons [of "f x"] by (simp add: algebra_simps)
qed

lemma digitsValue_Cons:
  "digitsValue r (c # xs) =
     (case digitValue c of Some v \<Rightarrow> v | None \<Rightarrow> 0) * r ^ length xs + digitsValue r xs"
  unfolding digitsValue_def
  using foldl_digits_shift [of r "\<lambda>c. case digitValue c of Some v \<Rightarrow> v | None \<Rightarrow> 0"
      "case digitValue c of Some v \<Rightarrow> v | None \<Rightarrow> 0" xs]
  by simp

lemma digitsValue_zeros: "digitsValue 10 (replicate k (CHR ''0'') @ s) = digitsValue 10 s"
  by (induction k) (simp_all add: digitsValue_Cons digitValue_def)

lemma digitsValue_bound:
  "\<forall>c \<in> set xs. isDecimal c \<Longrightarrow> digitsValue 10 xs < 10 ^ length xs"
proof (induction xs)
  case Nil
  show ?case by (simp add: digitsValue_def)
next
  case (Cons c xs)
  then obtain v where v: "v < 10" "digitValue c = Some v"
    using isDecimal_digitValue [of c] by auto
  define P :: nat where "P = 10 ^ length xs"
  have "digitsValue 10 xs < P" using Cons by (simp add: P_def)
  moreover have "v * P \<le> 9 * P" using v by simp
  ultimately have "v * P + digitsValue 10 xs < 10 * P" by linarith
  then show ?case using v by (simp add: digitsValue_Cons P_def)
qed

lemma isDecimal_less:
  assumes "isDecimal a" and "isDecimal b"
    and "digitValue a = Some v" and "digitValue b = Some w"
  shows "(a < b) = (v < w)" and "(a = b) = (v = w)"
proof -
  obtain v' where a: "digitValue a = Some v'" "of_char a = (48 + v' :: nat)"
    using isDecimal_digitValue [OF assms(1)] by blast
  obtain w' where b: "digitValue b = Some w'" "of_char b = (48 + w' :: nat)"
    using isDecimal_digitValue [OF assms(2)] by blast
  have e: "v' = v" "w' = w" using a b assms by simp_all
  show "(a < b) = (v < w)" using a b e by (simp add: less_char_def)
  have "(a = b) = (of_char a = (of_char b :: nat))" by auto
  then show "(a = b) = (v = w)" using a b e by simp
qed

lemma decimal_less_iff:
  assumes "length xs = length ys"
    and "\<forall>c \<in> set xs. isDecimal c" and "\<forall>c \<in> set ys. isDecimal c"
  shows "(xs < ys) = (digitsValue 10 xs < digitsValue 10 ys)"
  using assms
proof (induction xs ys rule: list_induct2)
  case Nil
  show ?case by simp
next
  case (Cons x xs y ys)
  obtain v where v: "v < 10" "digitValue x = Some v"
    using isDecimal_digitValue [of x] Cons.prems by auto
  obtain w where w: "w < 10" "digitValue y = Some w"
    using isDecimal_digitValue [of y] Cons.prems by auto
  define P :: nat where "P = 10 ^ length ys"
  define X where "X = digitsValue 10 xs"
  define Y where "Y = digitsValue 10 ys"
  have ih: "(xs < ys) = (X < Y)"
    using Cons by (simp add: X_def Y_def)
  have bx: "X < P"
    using digitsValue_bound [of xs] Cons by (simp add: X_def P_def)
  have by': "Y < P"
    using digitsValue_bound [of ys] Cons by (simp add: Y_def P_def)
  have c: "(x < y) = (v < w)" "(x = y) = (v = w)"
    using isDecimal_less [of x y v w] Cons.prems v w by simp_all
  have "(x # xs < y # ys) = (v < w \<or> v = w \<and> X < Y)"
    using c ih by simp
  also have "\<dots> = (v * P + X < w * P + Y)"
  proof (cases "v < w")
    case True
    then have "(v + 1) * P \<le> w * P"
      by (intro mult_right_mono) simp_all
    then have "v * P + P \<le> w * P" by (simp add: algebra_simps)
    then have "v * P + X < w * P + Y" using bx by linarith
    then show ?thesis using True by simp
  next
    case False
    show ?thesis
    proof (cases "v = w")
      case True
      then show ?thesis by simp
    next
      case False
      then have "w < v" using \<open>\<not> v < w\<close> by simp
      then have "(w + 1) * P \<le> v * P"
        by (intro mult_right_mono) simp_all
      then have "w * P + P \<le> v * P" by (simp add: algebra_simps)
      then have "\<not> v * P + X < w * P + Y" using by' by linarith
      then show ?thesis using \<open>w < v\<close> by simp
    qed
  qed
  finally show ?case
    using v w Cons.hyps by (simp add: digitsValue_Cons P_def X_def Y_def)
qed

lemma append_less_iff: "((p :: string) @ a < p @ b) = (a < b)"
  by (induction p) simp_all


lemma append_le_iff: "((p :: string) @ a \<le> p @ b) = (a \<le> b)"
  by (induction p) simp_all

lemma splitOn_no_separator: "c \<notin> set xs \<Longrightarrow> splitOn c xs = [xs]"
  by (induction xs) auto

lemma splitOn_at_separator:
  "c \<notin> set xs \<Longrightarrow> splitOn c (xs @ c # ys) = xs # splitOn c ys"
  by (induction xs) auto

lemma isDecimal_zero: "isDecimal (CHR ''0'')"
  by (simp add: isDecimal_def)

lemma padStart_decimal:
  assumes "\<forall>c \<in> set s. isDecimal c"
  shows "\<forall>c \<in> set (padStart n (CHR ''0'') s). isDecimal c"
proof
  fix c
  assume "c \<in> set (padStart n (CHR ''0'') s)"
  then have "c = CHR ''0'' \<or> c \<in> set s"
    by (auto simp: padStart_def)
  then show "isDecimal c" using assms isDecimal_zero by blast
qed

lemma padStart_nonempty: "s \<noteq> [] \<Longrightarrow> padStart n c s \<noteq> []"
  by (simp add: padStart_def)

lemma padStart_length: "length (padStart n c s) = max n (length s)"
  by (simp add: padStart_def)

lemma digitsValue_padStart:
  "digitsValue 10 (padStart n (CHR ''0'') s) = digitsValue 10 s"
  by (simp add: padStart_def digitsValue_zeros)

lemma isDecimal_not_dash: "\<forall>c \<in> set s. isDecimal c \<Longrightarrow> CHR ''-'' \<notin> set s"
  using isDecimal_facts(2) by blast

lemma toString_int: "toString (int n) = natToString n"
  by (simp add: toString_def)

lemma parseInt_decimal:
  assumes "s \<noteq> []" and "\<forall>c \<in> set s. isDecimal c"
  shows "parseInt s = Some (int (digitsValue 10 s))"
proof -
  obtain x xs where s: "s = x # xs" using assms(1) by (cases s) auto
  have x: "isDecimal x" using assms(2) s by simp
  have A: "dropWhile isSpace s = s"
    using isDecimal_facts(1) [OF x] by (simp add: s)
  have B: "(take 1 s = ''-'') = False" "(take 1 s = ''+'') = False"
    using isDecimal_facts(2,3) [OF x] by (simp_all add: s)
  have C: "(take 2 s = ''0x'') = False" "(take 2 s = ''0X'') = False"
  proof -
    show "(take 2 s = ''0x'') = False"
    proof (cases xs)
      case Nil
      then show ?thesis by (simp add: s)
    next
      case (Cons y ys)
      then have "isDecimal y" using assms(2) s by simp
      then show ?thesis using Cons isDecimal_facts(4) [of y] by (simp add: s)
    qed
    show "(take 2 s = ''0X'') = False"
    proof (cases xs)
      case Nil
      then show ?thesis by (simp add: s)
    next
      case (Cons y ys)
      then have "isDecimal y" using assms(2) s by simp
      then show ?thesis using Cons isDecimal_facts(5) [of y] by (simp add: s)
    qed
  qed
  have D: "takeWhile (isDigitIn 10) s = s"
    using assms(2) isDecimal_facts(6) by (simp add: takeWhile_eq_all_conv)
  have E: "(s = []) = False" using assms(1) by simp
  show ?thesis
    unfolding parseInt_def Let_def A B C D E simp_thms if_False by simp
qed

lemma segment_decimal: "\<forall>c \<in> set (padStart 4 (CHR ''0'') (natToString k)). isDecimal c"
  by (rule padStart_decimal) (rule natToString_decimal)

lemma datePrefix_form:
  "\<exists>ymd. datePrefix d = ''REQ-'' @ ymd \<and> CHR ''-'' \<notin> set ymd"
proof -
  let ?ymd = "natToString (fullYear d)
       @ padStart 2 (CHR ''0'') (natToString (monthIndex d + 1))
       @ padStart 2 (CHR ''0'') (natToString (dayOfMonth d))"
  have "\<forall>c \<in> set ?ymd. isDecimal c"
    using natToString_decimal [of "fullYear d"]
      padStart_decimal [OF natToString_decimal, of 2 "monthIndex d + 1"]
      padStart_decimal [OF natToString_decimal, of 2 "dayOfMonth d"]
    by (simp add: ball_Un)
  then have "CHR ''-'' \<notin> set ?ymd" by (rule isDecimal_not_dash)
  moreover have "datePrefix d = ''REQ-'' @ ?ymd" by (simp add: datePrefix_def)
  ultimately show ?thesis by blast
qed

lemma primaryId_segment:
  "nthOpt (splitOn (CHR ''-'') (primaryId d (int k))) 2 = Some (padStart 4 (CHR ''0'') (natToString k))"
proof -
  obtain ymd where y: "datePrefix d = ''REQ-'' @ ymd" "CHR ''-'' \<notin> set ymd"
    using datePrefix_form by blast
  let ?seg = "padStart 4 (CHR ''0'') (natToString k)"
  have seg: "CHR ''-'' \<notin> set ?seg"
    using segment_decimal by (rule isDecimal_not_dash)
  have "primaryId d (int k) = ''REQ'' @ CHR ''-'' # (ymd @ CHR ''-'' # ?seg)"
    by (simp add: primaryId_def y toString_int)
  then have "splitOn (CHR ''-'') (primaryId d (int k)) = [''REQ'', ymd, ?seg]"
    using splitOn_at_separator [of "CHR ''-''" "''REQ''" "ymd @ CHR ''-'' # ?seg"]
      splitOn_at_separator [of "CHR ''-''" ymd ?seg, OF y(2)]
      splitOn_no_separator [OF seg]
    by simp
  then show ?thesis by (simp add: nthOpt_def)
qed

lemma primaryId_nonempty: "primaryId d i \<noteq> []"
  by (simp add: primaryId_def datePrefix_def)

lemma nextSequence_primaryId: "nextSequence (Some (primaryId d (int k))) = int k + 1"
proof -
  have ne: "padStart 4 (CHR ''0'') (natToString k) \<noteq> []"
    by (rule padStart_nonempty) (rule natToString_nonempty)
  have "parseInt (padStart 4 (CHR ''0'') (natToString k)) = Some (int k)"
    using parseInt_decimal [OF ne segment_decimal]
    by (simp add: digitsValue_padStart digitsValue_natToString)
  then show ?thesis
    by (simp add: nextSequence_def primaryId_nonempty primaryId_segment parseIntOpt_def)
qed

lemma natToString_length: "0 < m \<Longrightarrow> n < 10 ^ m \<Longrightarrow> length (natToString n) \<le> m"
proof (induction n arbitrary: m rule: natToString.induct)
  case (1 n)
  show ?case
  proof (cases "n < 10")
    case True
    then show ?thesis using "1.prems" by (subst natToString.simps) simp
  next
    case False
    obtain m' where m: "m = Suc m'" using "1.prems" by (cases m) auto
    have "0 < m'" using False "1.prems" m by (cases m') auto
    moreover have "n div 10 < 10 ^ m'" using "1.prems" m by (simp add: less_mult_imp_div_less)
    ultimately have "length (natToString (n div 10)) \<le> m'"
      using "1.IH" [OF False] by simp
    then show ?thesis using False m by (subst natToString.simps) simp
  qed
qed

lemma segment_length: "k < 10000 \<Longrightarrow> length (padStart 4 (CHR ''0'') (natToString k)) = 4"
  using natToString_length [of 4 k] by (simp add: padStart_length)

lemma primaryId_le_iff:
  assumes "j < 10000" and "k < 10000"
  shows "(primaryId d (int j) \<le> primaryId d (int k)) = (j \<le> k)"
proof -
  let ?a = "padStart 4 (CHR ''0'') (natToString j)"
  let ?b = "padStart 4 (CHR ''0'') (natToString k)"
  have len: "length ?b = length ?a" using assms by (simp add: segment_length)
  have "(?b < ?a) = (digitsValue 10 ?b < digitsValue 10 ?a)"
    by (rule decimal_less_iff [OF len segment_decimal segment_decimal])
  then have "(?a \<le> ?b) = (j \<le> k)"
    by (simp add: digitsValue_padStart digitsValue_natToString not_less [symmetric])
  then show ?thesis
    by (simp add: primaryId_def toString_int append_le_iff)
qed


lemma natToString_length_ge: "10 ^ m \<le> n \<Longrightarrow> m < length (natToString n)"
proof (induction m arbitrary: n)
  case 0
  show ?case using natToString_nonempty [of n] by (cases "natToString n") simp_all
next
  case (Suc m)
  have "(1 :: nat) \<le> 10 ^ m" by simp
  moreover have "(10 :: nat) * 10 ^ m \<le> n" using Suc.prems by simp
  ultimately have n: "\<not> n < 10" by linarith
  have "10 ^ m \<le> n div 10" using Suc.prems by (simp add: less_eq_div_iff_mult_less_eq)
  then have "m < length (natToString (n div 10))" by (rule Suc.IH)
  then show ?case using n by (subst natToString.simps) simp
qed

lemma natToString_length_exact:
  "10 ^ m \<le> n \<Longrightarrow> n < 10 ^ Suc m \<Longrightarrow> length (natToString n) = Suc m"
  using natToString_length [of "Suc m" n] natToString_length_ge [of m n] by simp

lemma datePrefix_shape:
  assumes "1000 \<le> fullYear d" and "fullYear d < 10000" and "monthIndex d < 12"
    and "dayOfMonth d < 32"
  shows "\<exists>ymd. datePrefix d = ''REQ-'' @ ymd \<and> length ymd = 8 \<and> (\<forall>c \<in> set ymd. isDecimal c)"
proof -
  let ?y = "natToString (fullYear d)"
  let ?m = "padStart 2 (CHR ''0'') (natToString (monthIndex d + 1))"
  let ?d = "padStart 2 (CHR ''0'') (natToString (dayOfMonth d))"
  have y: "length ?y = 4"
    using natToString_length_exact [of 3 "fullYear d"] assms by simp
  have m: "length ?m = 2"
    using natToString_length [of 2 "monthIndex d + 1"] assms by (simp add: padStart_length)
  have d: "length ?d = 2"
    using natToString_length [of 2 "dayOfMonth d"] assms by (simp add: padStart_length)
  have dec: "\<forall>c \<in> set (?y @ ?m @ ?d). isDecimal c"
    using natToString_decimal [of "fullYear d"]
      padStart_decimal [OF natToString_decimal, of 2 "monthIndex d + 1"]
      padStart_decimal [OF natToString_decimal, of 2 "dayOfMonth d"]
    by (simp add: ball_Un)
  have "datePrefix d = ''REQ-'' @ (?y @ ?m @ ?d)" by (simp add: datePrefix_def)
  moreover have "length (?y @ ?m @ ?d) = 8" using y m d by simp
  ultimately show ?thesis using dec by blast
qed

lemma primaryId_shape:
  assumes "n < 10000"
  shows "\<exists>seq. primaryId d (int n) = datePrefix d @ ''-'' @ seq \<and> length seq = 4
           \<and> (\<forall>c \<in> set seq. isDecimal c) \<and> digitsValue 10 seq = n"
  using segment_length [OF assms] segment_decimal [of n]
  by (simp add: primaryId_def toString_int digitsValue_padStart digitsValue_natToString)

lemma set_map_filter_requestId:
  "set (List.map_filter requestId coll) = {s. Some s \<in> requestId ` set coll}"
proof (induction coll)
  case Nil
  show ?case by simp
next
  case (Cons r coll)
  show ?case
  proof (cases "requestId r")
    case None
    then show ?thesis using Cons by auto
  next
    case (Some s)
    then show ?thesis using Cons by auto
  qed
qed

lemma stored_ids:
  "set (filter (prefix p) (List.map_filter requestId coll))
     = {s. Some s \<in> requestId ` set coll \<and> prefix p s}"
  by (auto simp: set_map_filter_requestId)

lemma fold_max_greatest:
  fixes x :: string
  shows "fold max xs x \<in> set (x # xs) \<and> (\<forall>y \<in> set (x # xs). y \<le> fold max xs x)"
proof -
  have "fold max xs x = Max (set (x # xs))" by (simp only: Max.set_eq_fold)
  then show ?thesis using Max_in [of "set (x # xs)"] Max_ge [of "set (x # xs)"] by auto
qed

lemma findLastOfDay_None:
  "(findLastOfDay coll p = None) = (\<forall>s. Some s \<in> requestId ` set coll \<longrightarrow> \<not> prefix p s)"
proof -
  have "(findLastOfDay coll p = None) = (filter (prefix p) (List.map_filter requestId coll) = [])"
    by (simp add: findLastOfDay_def split: list.splits)
  also have "\<dots> = (\<forall>s \<in> set (List.map_filter requestId coll). \<not> prefix p s)"
    by (simp add: filter_empty_conv)
  also have "\<dots> = (\<forall>s. Some s \<in> requestId ` set coll \<longrightarrow> \<not> prefix p s)"
    unfolding set_map_filter_requestId by blast
  finally show ?thesis .
qed

lemma findLastOfDay_Some:
  assumes "findLastOfDay coll p = Some m"
  shows "Some m \<in> requestId ` set coll" and "prefix p m"
    and "\<forall>s. Some s \<in> requestId ` set coll \<and> prefix p s \<longrightarrow> s \<le> m"
proof -
  obtain x xs where l: "filter (prefix p) (List.map_filter requestId coll) = x # xs"
    and m: "m = fold max xs x"
    using assms by (auto simp: findLastOfDay_def split: list.splits)
  have s: "set (x # xs) = {s. Some s \<in> requestId ` set coll \<and> prefix p s}"
    using stored_ids [of p coll] l by simp
  have "m \<in> set (x # xs)" "\<forall>y \<in> set (x # xs). y \<le> m"
    using fold_max_greatest [of xs x] m by simp_all
  then show "Some m \<in> requestId ` set coll" and "prefix p m"
    and "\<forall>s. Some s \<in> requestId ` set coll \<and> prefix p s \<longrightarrow> s \<le> m"
    unfolding s by blast+
qed

lemma primaryId_prefix: "prefix (datePrefix d) (primaryId d i)"
  by (simp add: primaryId_def)

lemma findLastOfDay_highest:
  assumes wf: "\<forall>s. Some s \<in> requestId ` set coll \<and> prefix (datePrefix d) s \<longrightarrow>
                 (\<exists>j<10000. s = primaryId d (int j))"
    and k: "k < 10000" "Some (primaryId d (int k)) \<in> requestId ` set coll"
    and top: "\<forall>j<10000. Some (primaryId d (int j)) \<in> requestId ` set coll \<longrightarrow> j \<le> k"
  shows "findLastOfDay coll (datePrefix d) = Some (primaryId d (int k))"
proof -
  have "findLastOfDay coll (datePrefix d) \<noteq> None"
    using k(2) primaryId_prefix by (auto simp: findLastOfDay_None)
  then obtain m where m: "findLastOfDay coll (datePrefix d) = Some m" by auto
  note f = findLastOfDay_Some [OF m]
  obtain j where j: "j < 10000" "m = primaryId d (int j)" using wf f(1,2) by blast
  have "j \<le> k" using top j f(1) by blast
  moreover have "primaryId d (int k) \<le> m" using f(3) k(2) primaryId_prefix by blast
  then have "k \<le> j" using primaryId_le_iff [OF k(1) j(1)] j(2) by simp
  ultimately show ?thesis using m j by simp
qed


lemma primaryId_one: "primaryId d 1 = datePrefix d @ ''-0001''"
  by (simp add: primaryId_def toString_def natToString.simps digitChar_def padStart_def
      eval_nat_numeral)

lemma generateRequestId_first:
  assumes "\<not> findOneFails env"
    and "\<forall>s. Some s \<in> requestId ` set coll \<longrightarrow> \<not> prefix (datePrefix (today env)) s"
  shows "generateRequestId coll env = datePrefix (today env) @ ''-0001''"
proof -
  have "findLastOfDay coll (datePrefix (today env)) = None"
    using assms(2) by (simp add: findLastOfDay_None)
  then show ?thesis
    using assms(1) by (simp add: generateRequestId_def nextSequence_def primaryId_one)
qed

lemma generateRequestId_next:
  assumes "\<not> findOneFails env"
    and "\<forall>s. Some s \<in> requestId ` set coll \<and> prefix (datePrefix (today env)) s \<longrightarrow>
           (\<exists>j<10000. s = primaryId (today env) (int j))"
    and "k < 10000" and "Some (primaryId (today env) (int k)) \<in> requestId ` set coll"
    and "\<forall>j<10000. Some (primaryId (today env) (int j)) \<in> requestId ` set coll \<longrightarrow> j \<le> k"
  shows "generateRequestId coll env = primaryId (today env) (int k + 1)"
  using assms(1) findLastOfDay_highest [OF assms(2,3,4,5)]
  by (simp add: generateRequestId_def nextSequence_primaryId)

lemma generateRequestId_fallback:
  "findOneFails env \<Longrightarrow>
     generateRequestId coll env = ''REQ-'' @ toString (fallbackNow env) @ ''-'' @ fallbackRandom env"
  by (simp add: generateRequestId_def fallbackId_def)

lemma save_new_generated:
  assumes "\<not> hasRequestId r" and "validateRequest r"
    and "\<forall>x \<in> set coll. requestId x \<noteq> Some (generateRequestId coll env)"
  shows "save coll env now True m r
           = Inr (coll @ [r\<lparr>requestId := Some (generateRequestId coll env)\<rparr>],
                  r\<lparr>requestId := Some (generateRequestId coll env)\<rparr>)"
proof -
  let ?r = "r\<lparr>requestId := Some (generateRequestId coll env)\<rparr>"
  have p: "preValidate coll env r = ?r" using assms(1) by (simp add: preValidate_def)
  have v: "validateRequest ?r" using assms(2) by (simp add: validateRequest_def)
  have d: "\<not> list_ex (\<lambda>x. rid x \<noteq> rid ?r \<and> requestId x = requestId ?r) coll"
    using assms(3) by (auto simp: list_ex_iff)
  show ?thesis
    using v d by (simp add: save_def p commit_def preSave_def Let_def)
qed


lemma datePrefix_inj:
  assumes "1000 \<le> fullYear d" and "fullYear d < 10000" and "monthIndex d < 12"
    and "dayOfMonth d < 32"
    and "1000 \<le> fullYear d'" and "fullYear d' < 10000" and "monthIndex d' < 12"
    and "dayOfMonth d' < 32"
    and eq: "datePrefix d = datePrefix d'"
  shows "d = d'"
proof -
  let ?y = "\<lambda>d. natToString (fullYear d)"
  let ?m = "\<lambda>d. padStart 2 (CHR ''0'') (natToString (monthIndex d + 1))"
  let ?d = "\<lambda>d. padStart 2 (CHR ''0'') (natToString (dayOfMonth d))"
  have y: "length (?y d) = 4" "length (?y d') = 4"
    using natToString_length_exact [of 3 "fullYear d"] natToString_length_exact [of 3 "fullYear d'"]
      assms by simp_all
  have m: "length (?m d) = 2" "length (?m d') = 2"
    using natToString_length [of 2 "monthIndex d + 1"] natToString_length [of 2 "monthIndex d' + 1"]
      assms by (simp_all add: padStart_length)
  have "?y d @ ?m d @ ?d d = ?y d' @ ?m d' @ ?d d'"
    using eq by (simp add: datePrefix_def)
  then have 1: "?y d = ?y d'" and "?m d @ ?d d = ?m d' @ ?d d'"
    using y by simp_all
  then have 2: "?m d = ?m d'" and 3: "?d d = ?d d'"
    using m by simp_all
  have "digitsValue 10 (?y d) = digitsValue 10 (?y d')" using 1 by simp
  then have a: "fullYear d = fullYear d'" by (simp add: digitsValue_natToString)
  have "digitsValue 10 (?m d) = digitsValue 10 (?m d')" using 2 by simp
  then have b: "monthIndex d = monthIndex d'"
    by (simp add: digitsValue_padStart digitsValue_natToString)
  have "digitsValue 10 (?d d) = digitsValue 10 (?d d')" using 3 by simp
  then have c: "dayOfMonth d = dayOfMonth d'"
    by (simp add: digitsValue_padStart digitsValue_natToString)
  show ?thesis using a b c by simp
qed

lemma datePrefix_length:
  assumes "1000 \<le> fullYear d" and "fullYear d < 10000" and "monthIndex d < 12"
    and "dayOfMonth d < 32"
  shows "length (datePrefix d) = 12"
  using datePrefix_shape [OF assms] by auto

lemma other_day_not_matched:
  assumes "1000 \<le> fullYear d" and "fullYear d < 10000" and "monthIndex d < 12"
    and "dayOfMonth d < 32"
    and "1000 \<le> fullYear d'" and "fullYear d' < 10000" and "monthIndex d' < 12"
    and "dayOfMonth d' < 32"
    and "d \<noteq> d'"
  shows "\<not> prefix (datePrefix d) (primaryId d' i)"
proof
  assume "prefix (datePrefix d) (primaryId d' i)"
  then have "prefix (datePrefix d) (datePrefix d' @ ''-'' @ padStart 4 (CHR ''0'') (toString i))"
    by (simp add: primaryId_def)
  moreover have "length (datePrefix d) = length (datePrefix d')"
    using datePrefix_length [OF assms(1-4)] datePrefix_length [OF assms(5-8)] by simp
  ultimately have "datePrefix d = datePrefix d'"
    by (auto simp: prefix_def append_eq_append_conv)
  then show False using datePrefix_inj [OF assms(1-8)] assms(9) by simp
qed

text \<open>
  C5, amended. Without a failure of the query: when no stored identifier starts with
  the day's prefix, the identifier is the prefix followed by \<open>-0001\<close>; when the stored
  identifiers of the day are identifiers of this scheme with sequences below 10000 and
  \<open>k\<close> is the highest of them, the identifier is that of sequence \<open>k + 1\<close>. The
  identifier of a sequence below 10000 is the prefix, a dash and four decimal digits
  whose value is the sequence; the prefix is \<open>REQ-\<close> and eight decimal digits for a
  four-digit year, and it matches no identifier of another day, so the count starts again
  each day. When the query fails, the identifier is \<open>REQ-\<close>, the clock reading,
  a dash and the random string, and the save of a valid new document succeeds with it
  unless that identifier is already stored. A document without identifier gets the
  generated one.
\<close>

theorem generateRequestId_spec:
  "(\<not> findOneFails env
      \<and> (\<forall>s. Some s \<in> requestId ` set coll \<longrightarrow> \<not> prefix (datePrefix (today env)) s)
      \<longrightarrow> generateRequestId coll env = datePrefix (today env) @ ''-0001'')
   \<and> (\<not> findOneFails env
      \<and> (\<forall>s. Some s \<in> requestId ` set coll \<and> prefix (datePrefix (today env)) s \<longrightarrow>
             (\<exists>j<10000. s = primaryId (today env) (int j)))
      \<and> k < 10000 \<and> Some (primaryId (today env) (int k)) \<in> requestId ` set coll
      \<and> (\<forall>j<10000. Some (primaryId (today env) (int j)) \<in> requestId ` set coll \<longrightarrow> j \<le> k)
      \<longrightarrow> generateRequestId coll env = primaryId (today env) (int k + 1))
   \<and> (n < 10000 \<longrightarrow>
        (\<exists>seq. primaryId d (int n) = datePrefix d @ ''-'' @ seq \<and> length seq = 4
           \<and> (\<forall>c \<in> set seq. isDecimal c) \<and> digitsValue 10 seq = n))
   \<and> (validDate d \<longrightarrow>
        (\<exists>ymd. datePrefix d = ''REQ-'' @ ymd \<and> length ymd = 8 \<and> (\<forall>c \<in> set ymd. isDecimal c)))
   \<and> (validDate d \<and> validDate d' \<and> d \<noteq> d' \<longrightarrow> \<not> prefix (datePrefix d) (primaryId d' i))
   \<and> (findOneFails env \<longrightarrow>
        generateRequestId coll env
          = ''REQ-'' @ toString (fallbackNow env) @ ''-'' @ fallbackRandom env)
   \<and> (\<not> hasRequestId r \<longrightarrow>
        preValidate coll env r = r\<lparr>requestId := Some (generateRequestId coll env)\<rparr>)
   \<and> (findOneFails env \<and> \<not> hasRequestId r \<and> validateRequest r
        \<and> (\<forall>x \<in> set coll. requestId x \<noteq> Some (generateRequestId coll env))
      \<longrightarrow> save coll env now True m r
            = Inr (coll @ [r\<lparr>requestId := Some (generateRequestId coll env)\<rparr>],
                   r\<lparr>requestId := Some (generateRequestId coll env)\<rparr>))"
proof (intro conjI impI)
  assume "\<not> findOneFails env
      \<and> (\<forall>s. Some s \<in> requestId ` set coll \<longrightarrow> \<not> prefix (datePrefix (today env)) s)"
  then show "generateRequestId coll env = datePrefix (today env) @ ''-0001''"
    using generateRequestId_first by blast
next
  assume "\<not> findOneFails env
      \<and> (\<forall>s. Some s \<in> requestId ` set coll \<and> prefix (datePrefix (today env)) s \<longrightarrow>
             (\<exists>j<10000. s = primaryId (today env) (int j)))
      \<and> k < 10000 \<and> Some (primaryId (today env) (int k)) \<in> requestId ` set coll
      \<and> (\<forall>j<10000. Some (primaryId (today env) (int j)) \<in> requestId ` set coll \<longrightarrow> j \<le> k)"
  then show "generateRequestId coll env = primaryId (today env) (int k + 1)"
    using generateRequestId_next [of env coll k] by blast
next
  assume "n < 10000"
  then show "\<exists>seq. primaryId d (int n) = datePrefix d @ ''-'' @ seq \<and> length seq = 4
           \<and> (\<forall>c \<in> set seq. isDecimal c) \<and> digitsValue 10 seq = n"
    by (rule primaryId_shape)
next
  assume "validDate d"
  then show "\<exists>ymd. datePrefix d = ''REQ-'' @ ymd \<and> length ymd = 8 \<and> (\<forall>c \<in> set ymd. isDecimal c)"
    using datePrefix_shape unfolding validDate_def by blast
next
  assume "validDate d \<and> validDate d' \<and> d \<noteq> d'"
  then show "\<not> prefix (datePrefix d) (primaryId d' i)"
    using other_day_not_matched [of d d' i] unfolding validDate_def by blast
next
  assume "findOneFails env"
  then show "generateRequestId coll env
          = ''REQ-'' @ toString (fallbackNow env) @ ''-'' @ fallbackRandom env"
    by (rule generateRequestId_fallback)
next
  assume "\<not> hasRequestId r"
  then show "preValidate coll env r = r\<lparr>requestId := Some (generateRequestId coll env)\<rparr>"
    by (simp add: preValidate_def)
next
  assume "findOneFails env \<and> \<not> hasRequestId r \<and> validateRequest r
        \<and> (\<forall>x \<in> set coll. requestId x \<noteq> Some (generateRequestId coll env))"
  then show "save coll env now True m r
            = Inr (coll @ [r\<lparr>requestId := Some (generateRequestId coll env)\<rparr>],
                   r\<lparr>requestId := Some (generateRequestId coll env)\<rparr>)"
    using save_new_generated by blast
qed


lemma datePrefix_sample: "datePrefix (today sampleEnv) = ''REQ-20250101''"
  by (simp add: sampleEnv_def datePrefix_def natToString.simps digitChar_def padStart_def)

lemma primaryId_sample_1: "primaryId (today sampleEnv) (int 1) = ''REQ-20250101-0001''"
  by (simp add: primaryId_def datePrefix_sample toString_def natToString.simps digitChar_def
      padStart_def eval_nat_numeral)

lemma primaryId_sample_2: "primaryId (today sampleEnv) (int 1 + 1) = ''REQ-20250101-0002''"
  by (simp add: primaryId_def datePrefix_sample toString_def natToString.simps digitChar_def
      padStart_def eval_nat_numeral)

lemma toString_sample: "toString 1735689600000 = ''1735689600000''"
  by (simp add: toString_def natToString.simps digitChar_def)

lemma primaryId_inj:
  assumes "j < 10000" and "k < 10000" and "primaryId d (int j) = primaryId d (int k)"
  shows "j = k"
  using primaryId_le_iff [OF assms(1,2), of d] primaryId_le_iff [OF assms(2,1), of d] assms(3)
  by simp

lemma ids_pending: "requestId ` set [pendingRequest] = {Some ''REQ-20250101-0001''}"
  by (simp add: pendingRequest_def)

theorem generateRequestId_spec_witness:
  "generateRequestId [] sampleEnv = ''REQ-20250101-0001''
   \<and> generateRequestId [pendingRequest] sampleEnv = ''REQ-20250101-0002''
   \<and> generateRequestId [pendingRequest] (sampleEnv\<lparr>findOneFails := True\<rparr>)
       = ''REQ-1735689600000-k3j9x0q2z''
   \<and> save [pendingRequest] (sampleEnv\<lparr>findOneFails := True\<rparr>) 0 True True
        (pendingRequest\<lparr>rid := 11, requestId := None\<rparr>)
       = Inr ([pendingRequest,
               pendingRequest\<lparr>rid := 11, requestId := Some ''REQ-1735689600000-k3j9x0q2z''\<rparr>],
              pendingRequest\<lparr>rid := 11, requestId := Some ''REQ-1735689600000-k3j9x0q2z''\<rparr>)
   \<and> validDate (today sampleEnv)
   \<and> validDate ((today sampleEnv)\<lparr>dayOfMonth := 2\<rparr>)
   \<and> length (datePrefix (today sampleEnv)) = 12
   \<and> \<not> prefix (datePrefix (today sampleEnv))
          (primaryId ((today sampleEnv)\<lparr>dayOfMonth := 2\<rparr>) 1)"
proof -
  have vd: "validDate (today sampleEnv)" "validDate ((today sampleEnv)\<lparr>dayOfMonth := 2\<rparr>)"
    "today sampleEnv \<noteq> (today sampleEnv)\<lparr>dayOfMonth := 2\<rparr>"
    by (simp_all add: validDate_def sampleEnv_def)
  note t3 = generateRequestId_spec [where d = "today sampleEnv"
      and d' = "(today sampleEnv)\<lparr>dayOfMonth := 2\<rparr>" and i = 1]
  obtain ymd where "datePrefix (today sampleEnv) = ''REQ-'' @ ymd" and "length ymd = 8"
    using t3 vd(1) by blast
  then have 5: "length (datePrefix (today sampleEnv)) = 12"
    by simp
  have 6: "\<not> prefix (datePrefix (today sampleEnv))
          (primaryId ((today sampleEnv)\<lparr>dayOfMonth := 2\<rparr>) 1)"
    using t3 vd by blast
  have nf: "\<not> findOneFails sampleEnv" by (simp add: sampleEnv_def)
  note t0 = generateRequestId_spec [where env = sampleEnv and coll = "[]"]
  have 1: "generateRequestId [] sampleEnv = ''REQ-20250101-0001''"
    using t0 nf by (simp add: datePrefix_sample)
  have wf: "\<forall>s. Some s \<in> requestId ` set [pendingRequest] \<and> prefix (datePrefix (today sampleEnv)) s \<longrightarrow>
             (\<exists>j<10000. s = primaryId (today sampleEnv) (int j))"
  proof (intro allI impI)
    fix s
    assume "Some s \<in> requestId ` set [pendingRequest] \<and> prefix (datePrefix (today sampleEnv)) s"
    then have "s = primaryId (today sampleEnv) (int 1)"
      unfolding ids_pending primaryId_sample_1 by simp
    then show "\<exists>j<10000. s = primaryId (today sampleEnv) (int j)" by (intro exI [of _ 1]) simp
  qed
  have mem: "Some (primaryId (today sampleEnv) (int 1)) \<in> requestId ` set [pendingRequest]"
    unfolding ids_pending primaryId_sample_1 by simp
  have top: "\<forall>j<10000. Some (primaryId (today sampleEnv) (int j)) \<in> requestId ` set [pendingRequest]
               \<longrightarrow> j \<le> 1"
  proof (intro allI impI)
    fix j :: nat
    assume j: "j < 10000"
      and "Some (primaryId (today sampleEnv) (int j)) \<in> requestId ` set [pendingRequest]"
    then have "primaryId (today sampleEnv) (int j) = primaryId (today sampleEnv) (int 1)"
      unfolding ids_pending primaryId_sample_1 by simp
    then have "j = 1" using primaryId_inj [OF j, of 1] by simp
    then show "j \<le> 1" by simp
  qed
  note t1 = generateRequestId_spec [where env = sampleEnv and coll = "[pendingRequest]" and k = 1]
  have "generateRequestId [pendingRequest] sampleEnv = primaryId (today sampleEnv) (int 1 + 1)"
    using t1 nf wf mem top by simp
  then have 2: "generateRequestId [pendingRequest] sampleEnv = ''REQ-20250101-0002''"
    by (simp only: primaryId_sample_2)
  let ?env = "sampleEnv\<lparr>findOneFails := True\<rparr>"
  let ?r = "pendingRequest\<lparr>rid := 11, requestId := None\<rparr>"
  note t2 = generateRequestId_spec [where env = ?env and coll = "[pendingRequest]" and r = ?r
      and now = 0 and m = True]
  have f: "findOneFails ?env" "fallbackNow ?env = 1735689600000" "fallbackRandom ?env = ''k3j9x0q2z''"
    by (simp_all add: sampleEnv_def)
  have 3: "generateRequestId [pendingRequest] ?env = ''REQ-1735689600000-k3j9x0q2z''"
    using t2 f by (simp add: toString_sample)
  have h: "\<not> hasRequestId ?r" "validateRequest ?r"
    by (simp_all add: hasRequestId_def validateRequest_def pendingRequest_def)
  have u: "\<forall>x \<in> set [pendingRequest]. requestId x \<noteq> Some (generateRequestId [pendingRequest] ?env)"
    unfolding 3 by (simp add: pendingRequest_def)
  have 4: "save [pendingRequest] ?env 0 True True ?r
       = Inr ([pendingRequest] @ [?r\<lparr>requestId := Some (generateRequestId [pendingRequest] ?env)\<rparr>],
              ?r\<lparr>requestId := Some (generateRequestId [pendingRequest] ?env)\<rparr>)"
    using t2 f(1) h u by blast
  show ?thesis using 1 2 3 4 5 6 vd(1,2) by simp
qed


text \<open>
  C5, as stated, fails on the width of the sequence: after sequence 9999 the generator
  yields sequence 10000, five digits. From then on the greatest stored identifier in the
  order of strings is still the one of 9999, so the generator yields 10000 again, not one
  more than the highest sequence of the day.
\<close>

lemma findLastOfDay_9999:
  "findLastOfDay [pendingRequest\<lparr>requestId := Some ''REQ-20250101-9999''\<rparr>] ''REQ-20250101''
     = Some ''REQ-20250101-9999''"
  by (simp add: findLastOfDay_def List.map_filter_def pendingRequest_def)

lemma findLastOfDay_10000:
  "findLastOfDay [pendingRequest\<lparr>requestId := Some ''REQ-20250101-9999''\<rparr>,
        pendingRequest\<lparr>rid := 11, requestId := Some ''REQ-20250101-10000''\<rparr>] ''REQ-20250101''
     = Some ''REQ-20250101-9999''"
  by (simp add: findLastOfDay_def List.map_filter_def pendingRequest_def max_def)

lemma nextSequence_9999: "nextSequence (Some ''REQ-20250101-9999'') = 10000"
  by (simp add: nextSequence_def parseIntOpt_def nthOpt_def parseInt_def isSpace_def isDigitIn_def
     digitValue_def digitsValue_def Let_def)

lemma primaryId_10000: "primaryId (today sampleEnv) 10000 = ''REQ-20250101-10000''"
  by (simp add: primaryId_def datePrefix_sample toString_def natToString.simps digitChar_def
      padStart_def)

theorem sequence_width_counterexample:
  "generateRequestId [pendingRequest\<lparr>requestId := Some ''REQ-20250101-9999''\<rparr>] sampleEnv
     = ''REQ-20250101-10000''
   \<and> nthOpt (splitOn (CHR ''-'') ''REQ-20250101-10000'') 2 = Some ''10000''
   \<and> length ''10000'' = 5
   \<and> generateRequestId [pendingRequest\<lparr>requestId := Some ''REQ-20250101-9999''\<rparr>,
        pendingRequest\<lparr>rid := 11, requestId := Some ''REQ-20250101-10000''\<rparr>] sampleEnv
     = ''REQ-20250101-10000''"
proof -
  have nf: "\<not> findOneFails sampleEnv" by (simp add: sampleEnv_def)
  have "nthOpt (splitOn (CHR ''-'') ''REQ-20250101-10000'') 2 = Some ''10000''"
    by (simp add: nthOpt_def)
  then show ?thesis
    using nf
    by (simp add: generateRequestId_def datePrefix_sample findLastOfDay_9999
        findLastOfDay_10000 nextSequence_9999 primaryId_10000)
qed

section \<open>Creations in flight\<close>

text \<open>
  Two hooks that read the same collection compute the same identifier, and the write
  that comes second is refused by the unique index.
\<close>

lemma racing_hooks_same_identifier:
  "\<not> hasRequestId a \<Longrightarrow> \<not> hasRequestId b \<Longrightarrow>
     requestId (preValidate coll env a) = requestId (preValidate coll env b)"
  by (simp add: preValidate_def)

lemma racing_second_write_fails:
  assumes "\<not> hasRequestId a" and "\<not> hasRequestId b" and "rid a \<noteq> rid b"
    and "validateRequest b"
    and "commit coll now True True (preValidate coll env a) = Inr (coll1, a1)"
  shows "commit coll1 now True True (preValidate coll env b) = Inl (DuplicateKey ''requestId'')"
proof -
  let ?a = "preValidate coll env a"
  let ?b = "preValidate coll env b"
  have a1: "a1 = preSave True True now ?a" and c1: "coll1 = coll @ [a1]"
    using assms(5) by (auto simp: commit_def Let_def split: if_splits)
  have "rid a1 = rid a" "requestId a1 = requestId ?a"
    unfolding a1 by (simp_all add: preSave_fields preValidate_fields)
  then have "rid a1 \<noteq> rid (preSave True True now ?b)
      \<and> requestId a1 = requestId (preSave True True now ?b)"
    using assms(1,2,3) racing_hooks_same_identifier [of a b coll env]
    by (simp add: preSave_fields preValidate_fields)
  then have "list_ex (\<lambda>x. rid x \<noteq> rid (preSave True True now ?b)
      \<and> requestId x = requestId (preSave True True now ?b)) coll1"
    unfolding c1 by (simp add: list_ex_iff)
  then show ?thesis
    using assms(4) by (simp add: commit_def Let_def validateRequest_preValidate)
qed

lemma generateRequestId_empty_sample: "generateRequestId [] sampleEnv = ''REQ-20250101-0001''"
proof -
  have "\<not> findOneFails sampleEnv" by (simp add: sampleEnv_def)
  then have "generateRequestId [] sampleEnv = datePrefix (today sampleEnv) @ ''-0001''"
    by (rule generateRequestId_first) simp
  then show ?thesis by (simp only: datePrefix_sample) simp
qed

lemma hook_on_empty:
  "preValidate [] sampleEnv (sampleDocs i) = (sampleDocs i)\<lparr>requestId := Some ''REQ-20250101-0001''\<rparr>"
  by (simp add: preValidate_def hasRequestId_def sampleDocs_def newRequest_def
      generateRequestId_empty_sample)

lemma write_first:
  "commit [] 0 True True ((sampleDocs 0)\<lparr>requestId := Some ''REQ-20250101-0001''\<rparr>)
     = Inr ([(sampleDocs 0)\<lparr>requestId := Some ''REQ-20250101-0001''\<rparr>],
            (sampleDocs 0)\<lparr>requestId := Some ''REQ-20250101-0001''\<rparr>)"
  by (simp add: commit_def validateRequest_def preSave_def sampleDocs_def newRequest_def Let_def)

lemma write_second:
  "commit [(sampleDocs 0)\<lparr>requestId := Some ''REQ-20250101-0001''\<rparr>] 0 True True
      ((sampleDocs (Suc 0))\<lparr>requestId := Some ''REQ-20250101-0001''\<rparr>)
     = Inl (DuplicateKey ''requestId'')"
  by (simp add: commit_def validateRequest_def preSave_def sampleDocs_def newRequest_def Let_def)

lemma hook_after_first:
  "preValidate [(sampleDocs 0)\<lparr>requestId := Some ''REQ-20250101-0001''\<rparr>] sampleEnv
       (sampleDocs (Suc 0))
     = (sampleDocs (Suc 0))\<lparr>requestId := Some ''REQ-20250101-0002''\<rparr>"
proof -
  have nf: "\<not> findOneFails sampleEnv" by (simp add: sampleEnv_def)
  have f: "findLastOfDay [(sampleDocs 0)\<lparr>requestId := Some ''REQ-20250101-0001''\<rparr>]
             ''REQ-20250101'' = Some ''REQ-20250101-0001''"
    by (simp add: findLastOfDay_def List.map_filter_def)
  have n: "nextSequence (Some ''REQ-20250101-0001'') = 2"
    by (simp add: nextSequence_def parseIntOpt_def nthOpt_def parseInt_def isSpace_def
        isDigitIn_def digitValue_def digitsValue_def Let_def)
  have p: "primaryId (today sampleEnv) 2 = ''REQ-20250101-0002''"
    by (simp add: primaryId_def datePrefix_sample toString_def natToString.simps digitChar_def
        padStart_def eval_nat_numeral)
  have "generateRequestId [(sampleDocs 0)\<lparr>requestId := Some ''REQ-20250101-0001''\<rparr>] sampleEnv
          = ''REQ-20250101-0002''"
    using nf by (simp add: generateRequestId_def datePrefix_sample f n p)
  then show ?thesis
    by (simp add: preValidate_def hasRequestId_def sampleDocs_def newRequest_def)
qed

lemma write_second_in_turn:
  "commit [(sampleDocs 0)\<lparr>requestId := Some ''REQ-20250101-0001''\<rparr>] 0 True True
      ((sampleDocs (Suc 0))\<lparr>requestId := Some ''REQ-20250101-0002''\<rparr>)
     = Inr ([(sampleDocs 0)\<lparr>requestId := Some ''REQ-20250101-0001''\<rparr>,
             (sampleDocs (Suc 0))\<lparr>requestId := Some ''REQ-20250101-0002''\<rparr>],
            (sampleDocs (Suc 0))\<lparr>requestId := Some ''REQ-20250101-0002''\<rparr>)"
  by (simp add: commit_def validateRequest_def preSave_def sampleDocs_def newRequest_def Let_def)

lemma creations_in_turn:
  "stored (runSchedule sampleEnv 0 sampleDocs [Hook 0, Write 0, Hook 1, Write 1] [])
     = [(sampleDocs 0)\<lparr>requestId := Some ''REQ-20250101-0001''\<rparr>,
        (sampleDocs 1)\<lparr>requestId := Some ''REQ-20250101-0002''\<rparr>]"
  by (simp add: runSchedule_def runStep_def hook_on_empty write_first hook_after_first
      write_second_in_turn)

text \<open>
  C4. The generator reads the greatest stored identifier of the day and adds one in a
  step of its own. With two creations whose hooks both run before either write, both
  compute \<open>REQ-20250101-0001\<close>; the first write stores it, the second is refused with a
  duplicate key, and one identifier results from two creations. (Run in turn, the same
  two creations get the sequences 0001 and 0002: lemma \<open>creations_in_turn\<close>.)
\<close>

theorem concurrent_creations_collide:
  "prepared (runSchedule sampleEnv 0 sampleDocs [Hook 0, Hook 1, Write 0, Write 1] []) 0
     = Some ((sampleDocs 0)\<lparr>requestId := Some ''REQ-20250101-0001''\<rparr>)
   \<and> prepared (runSchedule sampleEnv 0 sampleDocs [Hook 0, Hook 1, Write 0, Write 1] []) 1
     = Some ((sampleDocs 1)\<lparr>requestId := Some ''REQ-20250101-0001''\<rparr>)
   \<and> outcome (runSchedule sampleEnv 0 sampleDocs [Hook 0, Hook 1, Write 0, Write 1] []) 0
     = Some (Inr ((sampleDocs 0)\<lparr>requestId := Some ''REQ-20250101-0001''\<rparr>))
   \<and> outcome (runSchedule sampleEnv 0 sampleDocs [Hook 0, Hook 1, Write 0, Write 1] []) 1
     = Some (Inl (DuplicateKey ''requestId''))
   \<and> stored (runSchedule sampleEnv 0 sampleDocs [Hook 0, Hook 1, Write 0, Write 1] [])
     = [(sampleDocs 0)\<lparr>requestId := Some ''REQ-20250101-0001''\<rparr>]"
  by (simp add: runSchedule_def runStep_def hook_on_empty write_first write_second)

end
